theory Spec2Isabelle
  imports Complex_Main "HOL-Library.Word"
begin

section \<open>Error classification (errors/error_codes.go)\<close>

text \<open>
  \<open>ErrCode\<close> is Go's \<open>uint32\<close>; an HTTP/2 protocol error code (\<open>http2.ErrCode\<close>) is a
  \<open>uint32\<close> as well, and a \<open>syscall.Errno\<close> is a \<open>uintptr\<close> (64 bits).
\<close>

type_synonym ErrCode = "32 word"
type_synonym http2_ErrCode = "32 word"

definition defaultErrorCode :: ErrCode where "defaultErrorCode = 1000"
definition defaultNetNonTCPErrorCode :: ErrCode where "defaultNetNonTCPErrorCode = 1010"
definition defaultDNSErrorCode :: ErrCode where "defaultDNSErrorCode = 1100"
definition dnsNoSuchHostErrorCode :: ErrCode where "dnsNoSuchHostErrorCode = 1101"
definition blackListedIPErrorCode :: ErrCode where "blackListedIPErrorCode = 1110"
definition blockedHostnameErrorCode :: ErrCode where "blockedHostnameErrorCode = 1111"
definition defaultTCPErrorCode :: ErrCode where "defaultTCPErrorCode = 1200"
definition tcpBrokenPipeErrorCode :: ErrCode where "tcpBrokenPipeErrorCode = 1201"
definition netUnknownErrnoErrorCode :: ErrCode where "netUnknownErrnoErrorCode = 1202"
definition tcpDialErrorCode :: ErrCode where "tcpDialErrorCode = 1210"
definition tcpDialRefusedErrorCode :: ErrCode where "tcpDialRefusedErrorCode = 1212"
definition tcpDialUnknownErrnoCode :: ErrCode where "tcpDialUnknownErrnoCode = 1213"
definition tcpResetByPeerErrorCode :: ErrCode where "tcpResetByPeerErrorCode = 1220"
definition tlsHeaderErrorCode :: ErrCode where "tlsHeaderErrorCode = 1301"
definition x509UnknownAuthorityErrorCode :: ErrCode where "x509UnknownAuthorityErrorCode = 1310"
definition x509HostnameErrorCode :: ErrCode where "x509HostnameErrorCode = 1311"
definition unknownHTTP2GoAwayErrorCode :: ErrCode where "unknownHTTP2GoAwayErrorCode = 1610"
definition unknownHTTP2StreamErrorCode :: ErrCode where "unknownHTTP2StreamErrorCode = 1630"
definition unknownHTTP2ConnectionErrorCode :: ErrCode where
  "unknownHTTP2ConnectionErrorCode = 1650"

lemmas error_code_defs =
  defaultErrorCode_def defaultNetNonTCPErrorCode_def defaultDNSErrorCode_def
  dnsNoSuchHostErrorCode_def blackListedIPErrorCode_def blockedHostnameErrorCode_def
  defaultTCPErrorCode_def tcpBrokenPipeErrorCode_def netUnknownErrnoErrorCode_def
  tcpDialErrorCode_def tcpDialRefusedErrorCode_def tcpDialUnknownErrnoCode_def
  tcpResetByPeerErrorCode_def tlsHeaderErrorCode_def x509UnknownAuthorityErrorCode_def
  x509HostnameErrorCode_def unknownHTTP2GoAwayErrorCode_def unknownHTTP2StreamErrorCode_def
  unknownHTTP2ConnectionErrorCode_def

definition ErrCodeHTTP11Required :: http2_ErrCode where "ErrCodeHTTP11Required = 0xd"

text \<open>
  The dynamic types an \<open>error\<close> interface value can have in \<open>ErrorCodeForError\<close>: one
  constructor for each type the type switch names, for the two types
  \<open>errorCodeForNetOpError\<close> asserts (\<open>*os.SyscallError\<close>, \<open>syscall.Errno\<close>), and
  \<open>OtherError\<close> for a value of any other type, given by its \<open>Error()\<close> text and by what
  \<open>errors.Unwrap\<close> returns for it. A field of interface type \<open>error\<close> may be \<open>nil\<close>: it is an
  \<open>error option\<close>.
\<close>

datatype error =
    K6Error (Code: ErrCode) (Message: string) (OriginalError: "error option")
  | DNSError (dns_Err: string) (dns_Name: string) (dns_Server: string)
  | BlackListedIPError
  | BlockedHostError
  | GoAwayError (LastStreamID: "32 word") (goaway_ErrCode: http2_ErrCode) (DebugData: string)
  | StreamError (StreamID: "32 word") (stream_Code: http2_ErrCode) (Cause: "error option")
  | ConnectionError http2_ErrCode
  | OpError (Op: string) (Net: string) (op_Err: "error option")
  | UnknownAuthorityError
  | HostnameError
  | RecordHeaderError (Msg: string)
  | URLError (url_Op: string) (URL: string) (url_Err: "error option")
  | SyscallError (Syscall: string) (sys_Err: "error option")
  | Errno "64 word"
  | OtherError (other_text: string) (other_unwrap: "error option")

text \<open>
  What the code takes from the Go runtime and the standard library: the platform
  (\<open>runtime.GOOS\<close> and the platform's values of the \<open>syscall\<close> constants), the \<open>Error()\<close>
  text of the library's error types, the \<open>String()\<close> text of an HTTP/2 error code, and
  \<open>net.SplitHostPort\<close> (\<open>None\<close> when it returns an error).
\<close>

record env =
  GOOS :: string
  ECONNRESET :: "64 word"
  EPIPE :: "64 word"
  ECONNREFUSED :: "64 word"
  WSAECONNRESET :: "64 word"
  lib_Error :: "error \<Rightarrow> string"
  http2_ErrCode_String :: "http2_ErrCode \<Rightarrow> string"
  SplitHostPort :: "string \<Rightarrow> (string \<times> string) option"

text \<open>\<open>K6Error.Error()\<close> returns the message; the other texts are the library's.\<close>

fun Error :: "env \<Rightarrow> error \<Rightarrow> string" where
  "Error E (K6Error c m orig) = m"
| "Error E (OtherError txt w) = txt"
| "Error E e = lib_Error E e"

text \<open>\<open>errors.Unwrap\<close>: the result of the value's \<open>Unwrap\<close> method, \<open>nil\<close> without one.\<close>

fun errors_Unwrap :: "error \<Rightarrow> error option" where
  "errors_Unwrap (K6Error c m orig) = orig"
| "errors_Unwrap (OpError op n e) = e"
| "errors_Unwrap (URLError op u e) = e"
| "errors_Unwrap (SyscallError s e) = e"
| "errors_Unwrap (OtherError txt w) = w"
| "errors_Unwrap e = None"

subsection \<open>Decimal rendering (\<open>strconv.Itoa\<close>, \<open>%d\<close>)\<close>

fun digits :: "nat \<Rightarrow> string" where
  "digits n = (if n < 10 then [''0123456789'' ! n]
               else digits (n div 10) @ [''0123456789'' ! (n mod 10)])"

declare digits.simps [simp del]

definition Itoa :: "int \<Rightarrow> string" where
  "Itoa i = (if i < 0 then CHR ''-'' # digits (nat (- i)) else digits (nat i))"

subsection \<open>The classifier\<close>

datatype panic = NilPointerDereference | Blocked | UnlockOfUnlockedMutex

definition http2ErrCodeOffset :: "http2_ErrCode \<Rightarrow> ErrCode" where
  "http2ErrCodeOffset code = (if code > ErrCodeHTTP11Required then 0 else 1 + code)"

definition getOSSyscallErrorCode :: "env \<Rightarrow> string \<Rightarrow> error option \<Rightarrow> ErrCode \<times> string" where
  "getOSSyscallErrorCode E op se_Err =
     (if se_Err = Some (Errno (WSAECONNRESET E))
      then (tcpResetByPeerErrorCode, op @ '': connection reset by peer'')
      else (0, ''''))"

text \<open>
  \<open>errorCodeForNetOpError\<close> and \<open>ErrorCodeForError\<close> call each other. The classifier
  takes an interface value, which may be \<open>nil\<close>: then no case of the type switch matches,
  \<open>errors.Unwrap(nil)\<close> is \<open>nil\<close>, and \<open>err.Error()\<close> dereferences the nil interface.
\<close>

fun ErrorCodeForError :: "env \<Rightarrow> error option \<Rightarrow> panic + ErrCode \<times> string"
and errorCodeForNetOpError :: "env \<Rightarrow> string \<Rightarrow> string \<Rightarrow> error option \<Rightarrow> panic + ErrCode \<times> string"
where
  "ErrorCodeForError E None = Inl NilPointerDereference"
| "ErrorCodeForError E (Some (K6Error c m orig)) = Inr (c, m)"
| "ErrorCodeForError E (Some (DNSError err name server)) =
     (if err = ''no such host'' then Inr (dnsNoSuchHostErrorCode, ''lookup: no such host'')
      else Inr (defaultDNSErrorCode, Error E (DNSError err name server)))"
| "ErrorCodeForError E (Some BlackListedIPError) =
     Inr (blackListedIPErrorCode, ''ip is blacklisted'')"
| "ErrorCodeForError E (Some BlockedHostError) =
     Inr (blockedHostnameErrorCode, ''hostname is blocked'')"
| "ErrorCodeForError E (Some (GoAwayError sid code dbg)) =
     Inr (unknownHTTP2GoAwayErrorCode + http2ErrCodeOffset code,
          ''http2: received GoAway with http2 ErrCode '' @ http2_ErrCode_String E code)"
| "ErrorCodeForError E (Some (StreamError sid code cause)) =
     Inr (unknownHTTP2StreamErrorCode + http2ErrCodeOffset code,
          ''http2: stream error with http2 ErrCode '' @ http2_ErrCode_String E code)"
| "ErrorCodeForError E (Some (ConnectionError code)) =
     Inr (unknownHTTP2ConnectionErrorCode + http2ErrCodeOffset code,
          ''http2: connection error with http2 ErrCode '' @ http2_ErrCode_String E code)"
| "ErrorCodeForError E (Some (OpError op n e)) = errorCodeForNetOpError E op n e"
| "ErrorCodeForError E (Some UnknownAuthorityError) =
     Inr (x509UnknownAuthorityErrorCode, ''x509: unknown authority'')"
| "ErrorCodeForError E (Some HostnameError) =
     Inr (x509HostnameErrorCode, ''x509: certificate doesn't match hostname'')"
| "ErrorCodeForError E (Some (RecordHeaderError msg)) =
     Inr (tlsHeaderErrorCode, Error E (RecordHeaderError msg))"
| "ErrorCodeForError E (Some (URLError op u e)) = ErrorCodeForError E e"
| "ErrorCodeForError E (Some (SyscallError s e)) =
     (case errors_Unwrap (SyscallError s e) of
        Some wrappedErr \<Rightarrow> ErrorCodeForError E (Some wrappedErr)
      | None \<Rightarrow> Inr (defaultErrorCode, Error E (SyscallError s e)))"
| "ErrorCodeForError E (Some (Errno n)) =
     (case errors_Unwrap (Errno n) of
        Some wrappedErr \<Rightarrow> ErrorCodeForError E (Some wrappedErr)
      | None \<Rightarrow> Inr (defaultErrorCode, Error E (Errno n)))"
| "ErrorCodeForError E (Some (OtherError txt w)) =
     (case errors_Unwrap (OtherError txt w) of
        Some wrappedErr \<Rightarrow> ErrorCodeForError E (Some wrappedErr)
      | None \<Rightarrow> Inr (defaultErrorCode, Error E (OtherError txt w)))"
| "errorCodeForNetOpError E op n e =
     (if n \<noteq> ''tcp'' \<and> n \<noteq> ''tcp6''
      then Inr (defaultNetNonTCPErrorCode, Error E (OpError op n e))
      else
        let sys =
          (case e of
             Some (SyscallError s se) \<Rightarrow>
               if se = Some (Errno (ECONNRESET E))
               then Some (tcpResetByPeerErrorCode, op @ '': connection reset by peer'')
               else if se = Some (Errno (EPIPE E))
               then Some (tcpBrokenPipeErrorCode, op @ '': broken pipe'')
               else (case getOSSyscallErrorCode E op se of
                       (code, msg) \<Rightarrow> if code \<noteq> 0 then Some (code, msg) else None)
           | _ \<Rightarrow> None)
        in case sys of
          Some r \<Rightarrow> Inr r
        | None \<Rightarrow>
            if op \<noteq> ''dial'' then
              (case e of
                 Some (Errno inErr) \<Rightarrow>
                   Inr (netUnknownErrnoErrorCode,
                        op @ '': unknown errno `'' @ Itoa (sint inErr) @ ''` on '' @ GOOS E
                          @ '' with message `'' @ Error E (Errno inErr) @ ''`'')
               | _ \<Rightarrow> Inr (defaultTCPErrorCode, Error E (OpError op n e)))
            else
              let dial =
                (case e of
                   Some (SyscallError s (Some (Errno errno))) \<Rightarrow>
                     if errno = ECONNREFUSED E \<or> (errno = 10061 \<and> GOOS E = ''windows'')
                     then Some (tcpDialRefusedErrorCode, ''dial: connection refused'')
                     else Some (tcpDialUnknownErrnoCode,
                                ''dial: unknown errno '' @ Itoa (uint errno)
                                  @ '' error with msg `'' @ Error E (Errno errno) @ ''`'')
                 | _ \<Rightarrow> None)
              in case dial of
                Some r \<Rightarrow> Inr r
              | None \<Rightarrow>
                  (case errors_Unwrap (OpError op n e) of
                     Some wrappedErr \<Rightarrow>
                       (case ErrorCodeForError E (Some wrappedErr) of
                          Inl p \<Rightarrow> Inl p
                        | Inr (errCodeForWrapped, errForWrapped) \<Rightarrow>
                            if errCodeForWrapped \<noteq> defaultErrorCode
                            then Inr (errCodeForWrapped, errForWrapped)
                            else Inr (tcpDialErrorCode, Error E (OpError op n e)))
                   | None \<Rightarrow> Inr (tcpDialErrorCode, Error E (OpError op n e))))"

declare errorCodeForNetOpError.simps [simp del]

text \<open>
  The types the type switch of \<open>ErrorCodeForError\<close> names a case for. A layer is a
  transparent wrapper of the error inside it when it is a \<open>*url.Error\<close>, or of a type the
  switch names no case for, and \<open>errors.Unwrap\<close> returns that error.
\<close>

fun recognized :: "error \<Rightarrow> bool" where
  "recognized (SyscallError s e) = False"
| "recognized (Errno n) = False"
| "recognized (OtherError txt w) = False"
| "recognized e = True"

fun is_URLError :: "error \<Rightarrow> bool" where
  "is_URLError (URLError op u e) = True"
| "is_URLError e = False"

definition wraps_transparently :: "error \<Rightarrow> error \<Rightarrow> bool" where
  "wraps_transparently outer inner =
     ((is_URLError outer \<or> \<not> recognized outer) \<and> errors_Unwrap outer = Some inner)"

section \<open>Tags, samples and the Trail (tracer/tracer.go)\<close>

text \<open>
  The system tags of k6's \<open>metrics\<close> package that this repository sets or tests, and the
  two that k6 stores as metadata instead of as indexed tags. A \<open>TagsAndMeta\<close> is a tag set
  and a metadata map, both from names to values.
\<close>

datatype SystemTag =
    TagName | TagURL | TagMethod | TagStatus | TagError | TagErrorCode
  | TagExpectedResponse | TagIP | TagCheck | TagIter | TagVU

fun SystemTag_String :: "SystemTag \<Rightarrow> string" where
  "SystemTag_String TagName = ''name''"
| "SystemTag_String TagURL = ''url''"
| "SystemTag_String TagMethod = ''method''"
| "SystemTag_String TagStatus = ''status''"
| "SystemTag_String TagError = ''error''"
| "SystemTag_String TagErrorCode = ''error_code''"
| "SystemTag_String TagExpectedResponse = ''expected_response''"
| "SystemTag_String TagIP = ''ip''"
| "SystemTag_String TagCheck = ''check''"
| "SystemTag_String TagIter = ''iter''"
| "SystemTag_String TagVU = ''vu''"

definition NonIndexableSystemTags :: "SystemTag set" where
  "NonIndexableSystemTags = {TagIter, TagVU}"

record TagsAndMeta =
  Tags :: "string \<rightharpoonup> string"
  Metadata :: "string \<rightharpoonup> string"

definition SetSystemTagOrMeta :: "SystemTag \<Rightarrow> string \<Rightarrow> TagsAndMeta \<Rightarrow> TagsAndMeta" where
  "SetSystemTagOrMeta tag v tm =
     (if tag \<in> NonIndexableSystemTags
      then tm\<lparr>Metadata := (Metadata tm)(SystemTag_String tag \<mapsto> v)\<rparr>
      else tm\<lparr>Tags := (Tags tm)(SystemTag_String tag \<mapsto> v)\<rparr>)"

definition SetSystemTagOrMetaIfEnabled ::
    "SystemTag set \<Rightarrow> SystemTag \<Rightarrow> string \<Rightarrow> TagsAndMeta \<Rightarrow> TagsAndMeta" where
  "SetSystemTagOrMetaIfEnabled enabledSystemTags tag v tm =
     (if tag \<notin> enabledSystemTags then tm else SetSystemTagOrMeta tag v tm)"

text \<open>
  A metric is identified by its name; times and durations are integers (nanoseconds);
  a sample value is a \<open>float64\<close>, here a real number. \<open>metrics.D\<close> converts a duration to
  milliseconds.
\<close>

record BuiltinMetrics =
  HTTPReqs :: string
  HTTPReqDuration :: string
  HTTPReqFailed :: string
  Checks :: string

record Sample =
  Metric :: string
  sample_Tags :: "string \<rightharpoonup> string"
  Time :: int
  sample_Metadata :: "string \<rightharpoonup> string"
  Value :: real

definition D :: "int \<Rightarrow> real" where
  "D d = real_of_int d / 1000000"

record null_Bool =
  Bool :: bool
  Valid :: bool

record Trail =
  EndTime :: int
  ConnDuration :: int
  Duration :: int
  ConnRemoteAddr :: "string option"
  Failed :: null_Bool
  trail_Tags :: "string \<rightharpoonup> string"
  trail_Metadata :: "string \<rightharpoonup> string"
  Samples :: "Sample list"

definition SaveSamples :: "BuiltinMetrics \<Rightarrow> TagsAndMeta \<Rightarrow> Trail \<Rightarrow> Trail" where
  "SaveSamples builtinMetrics ctm tr =
     (let tr1 = tr\<lparr>trail_Tags := Tags ctm\<rparr>;
          tr2 = tr1\<lparr>trail_Metadata := Metadata ctm\<rparr>;
          tr3 = tr2\<lparr>Samples := []\<rparr>
      in tr3\<lparr>Samples := Samples tr3 @
           [\<lparr>Metric = HTTPReqs builtinMetrics, sample_Tags = Tags ctm, Time = EndTime tr3,
              sample_Metadata = Metadata ctm, Value = 1\<rparr>,
            \<lparr>Metric = HTTPReqDuration builtinMetrics, sample_Tags = Tags ctm,
              Time = EndTime tr3, sample_Metadata = Metadata ctm,
              Value = D (Duration tr3)\<rparr>]\<rparr>)"

definition GetSamples :: "Trail \<Rightarrow> Sample list" where
  "GetSamples tr = Samples tr"

section \<open>The metric dispatcher (metrics/metrics.go)\<close>

text \<open>
  Of a fasthttp request the dispatcher reads the URI and the method, of a response the
  status code; the request engine below sets a request's method, body and body stream (a
  stream is given by its file's path and the size passed with it). \<open>Header.Method()\<close> of
  a request whose method was never set is \<open>GET\<close>. A context is done or not. What is pushed to the sample channel is a Trail
  (by the dispatcher) or a single sample (by \<open>CheckStatus\<close>).
\<close>

record Request =
  RequestURI :: string
  Method :: string
  Body :: string
  BodyStream :: "(string \<times> int) option"

definition Header_Method :: "Request \<Rightarrow> string" where
  "Header_Method r = (if Method r = [] then ''GET'' else Method r)"

record Response =
  StatusCode :: int

datatype Context = Context (Done: bool)

datatype SampleContainer = TrailSamples Trail | SingleSample Sample

definition PushIfNotDone :: "Context \<Rightarrow> SampleContainer list \<Rightarrow> SampleContainer \<Rightarrow> SampleContainer list" where
  "PushIfNotDone ctx output sampleContainer =
     (if Done ctx then output else output @ [sampleContainer])"

record Check =
  check_Name :: string
  Passes :: int
  Fails :: int

record lib_State =
  SystemTags :: "SystemTag set"
  BuiltinMetrics :: BuiltinMetrics
  state_Samples :: "SampleContainer list"
  Logger :: "string list"
  state_Tags :: TagsAndMeta
  Group :: "string \<rightharpoonup> Check"

record UnfinishedRequest =
  Ctx :: Context
  Trail :: Trail
  Request :: Request
  Response :: Response
  Err :: "error option"

record FinishedRequest =
  UnfinishedRequest :: UnfinishedRequest
  fin_Trail :: Trail
  ErrorCode :: ErrCode
  ErrorMsg :: string

text \<open>
  The dispatcher. Its \<open>State\<close> is the VU's state, of which it reads the enabled system tags
  and the builtin metrics and to which it logs and pushes samples. The mutex is held or
  free: \<open>Lock\<close> on a held mutex never returns and \<open>Unlock\<close> of a free one is a fatal error.
  The field \<open>events\<close> is not in the source: it records the order in which an execution
  takes and releases the mutex, writes the slot and hands a request to
  \<open>measureAndEmitMetrics\<close>.
\<close>

datatype event =
    EvLock
  | EvUnlock
  | EvStore "UnfinishedRequest option"
  | EvEmit UnfinishedRequest

record MetricDispatcher =
  State :: lib_State
  TagsAndMeta :: TagsAndMeta
  responseCallback :: "(int \<Rightarrow> bool) option"
  lastRequest :: "UnfinishedRequest option"
  lastRequestLock :: bool
  events :: "event list"

definition NewMetricDispatcher :: "TagsAndMeta \<Rightarrow> lib_State \<Rightarrow> MetricDispatcher" where
  "NewMetricDispatcher tags state =
     \<lparr>State = state, TagsAndMeta = tags, responseCallback = None, lastRequest = None,
      lastRequestLock = False, events = []\<rparr>"

definition Lock :: "MetricDispatcher \<Rightarrow> panic + MetricDispatcher" where
  "Lock t = (if lastRequestLock t then Inl Blocked
             else Inr (t\<lparr>lastRequestLock := True, events := events t @ [EvLock]\<rparr>))"

definition Unlock :: "MetricDispatcher \<Rightarrow> panic + MetricDispatcher" where
  "Unlock t = (if \<not> lastRequestLock t then Inl UnlockOfUnlockedMutex
               else Inr (t\<lparr>lastRequestLock := False, events := events t @ [EvUnlock]\<rparr>))"

definition store_lastRequest :: "UnfinishedRequest option \<Rightarrow> MetricDispatcher \<Rightarrow> MetricDispatcher" where
  "store_lastRequest r t = t\<lparr>lastRequest := r, events := events t @ [EvStore r]\<rparr>"

definition FormatBool :: "bool \<Rightarrow> string" where
  "FormatBool b = (if b then ''true'' else ''false'')"

text \<open>
  \<open>measureAndEmitMetrics\<close>, in the source's three steps: the tags of the request, the
  Trail's samples, the push. The Trail is shared by pointer between the unfinished
  request, the finished request and the sample channel, so all three hold the Trail as
  it is at the end. The classifier's panic, if any, ends the call.
\<close>

definition name_url_method_tags :: "SystemTag set \<Rightarrow> UnfinishedRequest \<Rightarrow> TagsAndMeta \<Rightarrow> TagsAndMeta" where
  "name_url_method_tags enabledTags unfReq tagsAndMeta =
     (let tm =
        (case Tags tagsAndMeta (SystemTag_String TagName) of
           None \<Rightarrow>
             let uri = RequestURI (Request unfReq);
                 tm1 = SetSystemTagOrMetaIfEnabled enabledTags TagName uri tagsAndMeta
             in SetSystemTagOrMetaIfEnabled enabledTags TagURL uri tm1
         | Some nameTagValue \<Rightarrow>
             SetSystemTagOrMetaIfEnabled enabledTags TagURL nameTagValue tagsAndMeta)
      in SetSystemTagOrMetaIfEnabled enabledTags TagMethod (Header_Method (Request unfReq))
           tm)"

definition classify_tags ::
    "env \<Rightarrow> SystemTag set \<Rightarrow> UnfinishedRequest \<Rightarrow> TagsAndMeta
      \<Rightarrow> panic + ErrCode \<times> string \<times> TagsAndMeta" where
  "classify_tags E enabledTags unfReq tagsAndMeta =
     (case Err unfReq of
        Some e \<Rightarrow>
          (case ErrorCodeForError E (Some e) of
             Inl p \<Rightarrow> Inl p
           | Inr (code, msg) \<Rightarrow>
               let tm1 = SetSystemTagOrMetaIfEnabled enabledTags TagError msg tagsAndMeta;
                   tm2 = SetSystemTagOrMetaIfEnabled enabledTags TagErrorCode
                           (Itoa (uint code)) tm1
               in Inr (code, msg, SetSystemTagOrMetaIfEnabled enabledTags TagStatus ''0'' tm2))
      | None \<Rightarrow>
          let status = StatusCode (Response unfReq);
              tm1 = SetSystemTagOrMetaIfEnabled enabledTags TagStatus (Itoa status) tagsAndMeta
          in if status \<ge> 400
             then let code = (word_of_int (1000 + status) :: ErrCode)
                  in Inr (code, [],
                          SetSystemTagOrMetaIfEnabled enabledTags TagErrorCode
                            (Itoa (uint code)) tm1)
             else Inr (0, [], tm1))"

definition ip_tag :: "env \<Rightarrow> SystemTag set \<Rightarrow> Trail \<Rightarrow> TagsAndMeta \<Rightarrow> TagsAndMeta" where
  "ip_tag E enabledTags trail tagsAndMeta =
     (if TagIP \<in> enabledTags
      then (case ConnRemoteAddr trail of
              Some addr \<Rightarrow>
                (case SplitHostPort E addr of
                   Some (ip, port) \<Rightarrow> SetSystemTagOrMeta TagIP ip tagsAndMeta
                 | None \<Rightarrow> tagsAndMeta)
            | None \<Rightarrow> tagsAndMeta)
      else tagsAndMeta)"

definition measureAndEmitMetrics ::
    "env \<Rightarrow> Context \<Rightarrow> UnfinishedRequest \<Rightarrow> MetricDispatcher
      \<Rightarrow> panic + FinishedRequest \<times> MetricDispatcher" where
  "measureAndEmitMetrics E ctx unfReq t0 =
     (let t = t0\<lparr>events := events t0 @ [EvEmit unfReq]\<rparr>;
          trail = Trail unfReq;
          enabledTags = SystemTags (State t);
          tm0 = name_url_method_tags enabledTags unfReq (TagsAndMeta t)
      in case classify_tags E enabledTags unfReq tm0 of
           Inl p \<Rightarrow> Inl p
         | Inr (code, msg, tm1) \<Rightarrow>
             let tm2 = ip_tag E enabledTags trail tm1;
                 expected =
                   (case responseCallback t of
                      Some cb \<Rightarrow>
                        Some (cb (if Err unfReq = None then StatusCode (Response unfReq)
                                  else 0))
                    | None \<Rightarrow> None);
                 failed = (if expected = Some False then 1 else 0 :: real);
                 tagsAndMeta =
                   (case expected of
                      Some ex \<Rightarrow>
                        SetSystemTagOrMetaIfEnabled enabledTags TagExpectedResponse
                          (FormatBool ex) tm2
                    | None \<Rightarrow> tm2);
                 trail1 = SaveSamples (BuiltinMetrics (State t)) tagsAndMeta trail;
                 trail2 =
                   (if responseCallback t \<noteq> None
                    then let tr1 = trail1\<lparr>Failed := (Failed trail1)\<lparr>Valid := True\<rparr>\<rparr>;
                             tr2 = (if failed = 1
                                    then tr1\<lparr>Failed := (Failed tr1)\<lparr>Bool := True\<rparr>\<rparr>
                                    else tr1)
                         in tr2\<lparr>Samples := Samples tr2 @
                              [\<lparr>Metric = HTTPReqFailed (BuiltinMetrics (State t)),
                                sample_Tags = Tags tagsAndMeta, Time = EndTime tr2,
                                sample_Metadata = Metadata tagsAndMeta, Value = failed\<rparr>]\<rparr>
                    else trail1);
                 result = \<lparr>UnfinishedRequest = unfReq\<lparr>Trail := trail2\<rparr>, fin_Trail = trail2,
                            ErrorCode = code, ErrorMsg = msg\<rparr>
             in Inr (result,
                     t\<lparr>State := (State t)\<lparr>state_Samples :=
                          PushIfNotDone ctx (state_Samples (State t)) (TrailSamples trail2)\<rparr>\<rparr>))"

definition ProcessLastSavedRequest ::
    "env \<Rightarrow> Context \<Rightarrow> error option \<Rightarrow> MetricDispatcher
      \<Rightarrow> panic + FinishedRequest option \<times> MetricDispatcher" where
  "ProcessLastSavedRequest E ctx lastErr t =
     (case Lock t of
        Inl p \<Rightarrow> Inl p
      | Inr t1 \<Rightarrow>
          let unprocessedRequest = lastRequest t1;
              t2 = store_lastRequest None t1
          in case Unlock t2 of
               Inl p \<Rightarrow> Inl p
             | Inr t3 \<Rightarrow>
                 (case unprocessedRequest of
                    Some r \<Rightarrow>
                      let r1 = (if Err r = None \<and> lastErr \<noteq> None then r\<lparr>Err := lastErr\<rparr>
                                else r)
                      in (case measureAndEmitMetrics E ctx r1 t3 of
                            Inl p \<Rightarrow> Inl p
                          | Inr (fin, t4) \<Rightarrow> Inr (Some fin, t4))
                  | None \<Rightarrow> Inr (None, t3)))"

definition SaveCurrentRequest ::
    "env \<Rightarrow> Context \<Rightarrow> UnfinishedRequest \<Rightarrow> MetricDispatcher \<Rightarrow> panic + MetricDispatcher" where
  "SaveCurrentRequest E ctx currentRequest t =
     (case Lock t of
        Inl p \<Rightarrow> Inl p
      | Inr t1 \<Rightarrow>
          let unprocessedRequest = lastRequest t1;
              t2 = store_lastRequest (Some currentRequest) t1
          in case Unlock t2 of
               Inl p \<Rightarrow> Inl p
             | Inr t3 \<Rightarrow>
                 (case unprocessedRequest of
                    Some r \<Rightarrow>
                      let t4 = t3\<lparr>State := (State t3)\<lparr>Logger := Logger (State t3) @
                                 [''TracerTransport: unexpected unprocessed Request for ''
                                    @ RequestURI (Request r)]\<rparr>\<rparr>
                      in (case measureAndEmitMetrics E ctx r t4 of
                            Inl p \<Rightarrow> Inl p
                          | Inr (fin, t5) \<Rightarrow> Inr t5)
                  | None \<Rightarrow> Inr t3))"

subsection \<open>Sequences of stage and drain calls\<close>

datatype op = Stage Context UnfinishedRequest | Drain Context "error option"

fun exec_op :: "env \<Rightarrow> op \<Rightarrow> MetricDispatcher \<Rightarrow> panic + MetricDispatcher" where
  "exec_op E (Stage ctx r) t = SaveCurrentRequest E ctx r t"
| "exec_op E (Drain ctx lastErr) t =
     (case ProcessLastSavedRequest E ctx lastErr t of
        Inl p \<Rightarrow> Inl p
      | Inr (fin, t1) \<Rightarrow> Inr t1)"

fun run :: "env \<Rightarrow> op list \<Rightarrow> MetricDispatcher \<Rightarrow> panic + MetricDispatcher" where
  "run E [] t = Inr t"
| "run E (x # xs) t = (case exec_op E x t of Inl p \<Rightarrow> Inl p | Inr t1 \<Rightarrow> run E xs t1)"

fun staged :: "op list \<Rightarrow> UnfinishedRequest list" where
  "staged [] = []"
| "staged (Stage ctx r # xs) = r # staged xs"
| "staged (Drain ctx lastErr # xs) = staged xs"

fun emitted :: "event list \<Rightarrow> UnfinishedRequest list" where
  "emitted [] = []"
| "emitted (EvEmit r # es) = r # emitted es"
| "emitted (e # es) = emitted es"

definition slot :: "MetricDispatcher \<Rightarrow> UnfinishedRequest list" where
  "slot t = (case lastRequest t of None \<Rightarrow> [] | Some r \<Rightarrow> [r])"

text \<open>
  A request is handed to \<open>measureAndEmitMetrics\<close> as it was staged, or with the drain's
  error in the place of the error it did not have.
\<close>

definition emitted_as :: "UnfinishedRequest \<Rightarrow> UnfinishedRequest \<Rightarrow> bool" where
  "emitted_as r r1 = (r1 = r \<or> (Err r = None \<and> r1 = r\<lparr>Err := Err r1\<rparr>))"

text \<open>
  Readings of an event list, from a mutex that is held (\<open>h\<close>) or free at its start:
  whether the mutex is held at its end, whether every hand-over to
  \<open>measureAndEmitMetrics\<close> happens with the mutex held, whether every one happens with
  the mutex free, and whether every store of a request finds the requests stored
  before it already handed over (\<open>n\<close> counts the stored requests not yet handed over).
\<close>

fun lock_after :: "bool \<Rightarrow> event list \<Rightarrow> bool" where
  "lock_after h [] = h"
| "lock_after h (EvLock # es) = lock_after True es"
| "lock_after h (EvUnlock # es) = lock_after False es"
| "lock_after h (e # es) = lock_after h es"

fun emits_under_lock :: "bool \<Rightarrow> event list \<Rightarrow> bool" where
  "emits_under_lock h [] = True"
| "emits_under_lock h (EvLock # es) = emits_under_lock True es"
| "emits_under_lock h (EvUnlock # es) = emits_under_lock False es"
| "emits_under_lock h (EvEmit r # es) = (h \<and> emits_under_lock h es)"
| "emits_under_lock h (EvStore r # es) = emits_under_lock h es"

fun emits_outside_lock :: "bool \<Rightarrow> event list \<Rightarrow> bool" where
  "emits_outside_lock h [] = True"
| "emits_outside_lock h (EvLock # es) = emits_outside_lock True es"
| "emits_outside_lock h (EvUnlock # es) = emits_outside_lock False es"
| "emits_outside_lock h (EvEmit r # es) = (\<not> h \<and> emits_outside_lock h es)"
| "emits_outside_lock h (EvStore r # es) = emits_outside_lock h es"

fun emits_before_accept :: "nat \<Rightarrow> event list \<Rightarrow> bool" where
  "emits_before_accept n [] = True"
| "emits_before_accept n (EvStore (Some r) # es) = (n = 0 \<and> emits_before_accept (Suc n) es)"
| "emits_before_accept n (EvEmit r # es) = emits_before_accept (n - 1) es"
| "emits_before_accept n (e # es) = emits_before_accept n es"

text \<open>
  An error in whose chain every \<open>*url.Error\<close> wraps an error (its \<open>Err\<close> is not \<open>nil\<close>).
\<close>

fun url_errors_wrap :: "error \<Rightarrow> bool" where
  "url_errors_wrap (K6Error c m orig) = True"
| "url_errors_wrap (OpError op n None) = True"
| "url_errors_wrap (OpError op n (Some e)) = url_errors_wrap e"
| "url_errors_wrap (URLError op u None) = False"
| "url_errors_wrap (URLError op u (Some e)) = url_errors_wrap e"
| "url_errors_wrap (SyscallError s None) = True"
| "url_errors_wrap (SyscallError s (Some e)) = url_errors_wrap e"
| "url_errors_wrap (OtherError txt None) = True"
| "url_errors_wrap (OtherError txt (Some e)) = url_errors_wrap e"
| "url_errors_wrap e = True"

definition err_ok :: "error option \<Rightarrow> bool" where
  "err_ok e = (case e of None \<Rightarrow> True | Some x \<Rightarrow> url_errors_wrap x)"

fun op_ok :: "op \<Rightarrow> bool" where
  "op_ok (Stage ctx r) = err_ok (Err r)"
| "op_ok (Drain ctx lastErr) = err_ok lastErr"

text \<open>
  Auxiliary notions for the properties of call sequences: the dispatcher after the
  locked part of a call that stores \<open>s\<close> in the slot; the relation between the
  dispatcher before and after calls that stage the requests \<open>new\<close>; and a slot whose
  request, if any, carries an error the classifier returns for.
\<close>

definition drained :: "UnfinishedRequest option \<Rightarrow> MetricDispatcher \<Rightarrow> MetricDispatcher" where
  "drained s t = t\<lparr>lastRequest := s, lastRequestLock := False,
                    events := events t @ [EvLock, EvStore s, EvUnlock]\<rparr>"

definition step_ok :: "MetricDispatcher \<Rightarrow> UnfinishedRequest list \<Rightarrow> MetricDispatcher \<Rightarrow> bool" where
  "step_ok t new t1 =
     (\<not> lastRequestLock t1 \<and> responseCallback t1 = responseCallback t
      \<and> TagsAndMeta t1 = TagsAndMeta t
      \<and> (\<exists>evs. events t1 = events t @ evs \<and> emits_outside_lock False evs
               \<and> lock_after False evs = False
               \<and> (\<exists>A. slot t @ new = A @ slot t1 \<and> list_all2 emitted_as A (emitted evs))))"

definition slot_ok :: "MetricDispatcher \<Rightarrow> bool" where
  "slot_ok t = list_all (\<lambda>r. err_ok (Err r)) (slot t)"

definition run_events :: "env \<Rightarrow> op list \<Rightarrow> MetricDispatcher \<Rightarrow> event list option" where
  "run_events E ops t = (case run E ops t of Inl p \<Rightarrow> None | Inr t1 \<Rightarrow> Some (events t1))"

definition status_tag_of ::
    "panic + FinishedRequest \<times> MetricDispatcher \<Rightarrow> string option option" where
  "status_tag_of res =
     (case res of Inl p \<Rightarrow> None | Inr (fin, t) \<Rightarrow> Some (trail_Tags (fin_Trail fin) ''status''))"

section \<open>The request engine's pooled request (client.go)\<close>

text \<open>
  The body of a request definition is absent (\<open>nil\<close>), a string, an array buffer, a file
  stream or a value of another type. A file stream is a file's path and read position;
  \<open>Seek(0, 0)\<close> rewinds it, or returns the error the file is in.
\<close>

record FileStream =
  path :: string
  position :: int
  seek_error :: "string option"

datatype body = BodyString string | BodyArrayBuffer string | BodyFileStream FileStream | BodyOther

record RequestWrapper =
  Throw :: bool
  DisableKeepAlive :: bool
  Url :: string
  Host :: string
  Headers :: "string \<rightharpoonup> string"
  wrapper_Body :: "body option"
  req :: Request
  ResponseType :: string

definition MethodHead :: string where "MethodHead = ''HEAD''"
definition MethodGet :: string where "MethodGet = ''GET''"
definition MethodPost :: string where "MethodPost = ''POST''"

definition Seek_start :: "FileStream \<Rightarrow> string + FileStream" where
  "Seek_start f = (case seek_error f of Some err \<Rightarrow> Inl err | None \<Rightarrow> Inr (f\<lparr>position := 0\<rparr>))"

text \<open>
  fasthttp's \<open>SetBody\<close> replaces the body bytes and drops the body stream;
  \<open>SetBodyStream\<close> drops the body bytes and installs the stream.
\<close>

definition SetBody :: "string \<Rightarrow> Request \<Rightarrow> Request" where
  "SetBody b r = r\<lparr>Body := b, BodyStream := None\<rparr>"

definition SetBodyStream :: "string option \<Rightarrow> int \<Rightarrow> Request \<Rightarrow> Request" where
  "SetBodyStream bodyStream bodySize r =
     r\<lparr>Body := [],
       BodyStream := (case bodyStream of None \<Rightarrow> None | Some f \<Rightarrow> Some (f, bodySize))\<rparr>"

definition SetMethod :: "string \<Rightarrow> Request \<Rightarrow> Request" where
  "SetMethod m r = r\<lparr>Method := m\<rparr>"

definition setBody :: "string \<Rightarrow> body option \<Rightarrow> bool" where
  "setBody m b = (b \<noteq> None \<and> m \<noteq> MethodHead \<and> m \<noteq> MethodGet)"

text \<open>
  \<open>setupCachedReq\<close> on the wrapper whose \<open>req\<close> is the instance taken from the pool. It
  returns the error (or \<open>nil\<close>), the wrapper and the logger's lines.
\<close>

definition setupCachedReq ::
    "string list \<Rightarrow> RequestWrapper \<Rightarrow> string \<Rightarrow> string option \<times> RequestWrapper \<times> string list" where
  "setupCachedReq logger reqw m =
     (if setBody m (wrapper_Body reqw) then
        (case wrapper_Body reqw of
           Some (BodyFileStream f) \<Rightarrow>
             (case Seek_start f of
                Inl err \<Rightarrow>
                  (Some err, reqw, logger @ [''Failed to reset stream to beginning''])
              | Inr f1 \<Rightarrow>
                  (None,
                   reqw\<lparr>wrapper_Body := Some (BodyFileStream f1),
                        req := SetBodyStream (Some (path f1)) (- 1) (req reqw)\<rparr>,
                   logger))
         | _ \<Rightarrow> (None, reqw, logger))
      else
        (None,
         reqw\<lparr>req := SetMethod m (SetBodyStream None 0 (SetBody [] (req reqw)))\<rparr>,
         logger))"

section \<open>The status check (\<open>CheckStatus\<close>)\<close>

text \<open>
  The repository holds two versions of \<open>ModuleInstance.CheckStatus\<close>: one bound to the
  sobek engine, which builds the check's name itself, and one bound to the goja engine,
  which resolves the check record in the state's group and counts passes and fails. The
  object given to either exports a response of this module (of which the status is read)
  or something else. \<open>apply\<close> is k6's \<open>common.ApplyCustomUserTags\<close>, \<open>now\<close> the time read by
  \<open>time.Now()\<close>, and the state is \<open>nil\<close> in the init context.
\<close>

record js_Response =
  Status :: int

datatype js_object = ResponseObject js_Response | OtherObject

definition ErrCheckInInitContext :: string where
  "ErrCheckInInitContext = ''Using check() in the init context is not supported''"

definition CheckStatus_sobek ::
    "('v \<Rightarrow> TagsAndMeta \<Rightarrow> string + TagsAndMeta) \<Rightarrow> Context \<Rightarrow> int \<Rightarrow> lib_State option
      \<Rightarrow> int \<Rightarrow> js_object option \<Rightarrow> 'v list \<Rightarrow> (bool \<times> string option) \<times> lib_State option" where
  "CheckStatus_sobek apply ctx now state wantStatus r extras =
     (case state of
        None \<Rightarrow> ((False, Some ErrCheckInInitContext), None)
      | Some st \<Rightarrow>
          (case r of
             None \<Rightarrow> ((False, Some ''nil response''), Some st)
           | Some OtherObject \<Rightarrow>
               ((False, Some ''response object not given to CheckStatus''), Some st)
           | Some (ResponseObject resp) \<Rightarrow>
               (case (case extras of [] \<Rightarrow> Inr (state_Tags st)
                      | x # xs \<Rightarrow> apply x (state_Tags st)) of
                  Inl err \<Rightarrow> ((False, Some err), Some st)
                | Inr commonTagsAndMeta \<Rightarrow>
                    let checkName = ''check status is '' @ Itoa wantStatus;
                        tags = (if TagCheck \<in> SystemTags st
                                then (Tags commonTagsAndMeta)(''check'' \<mapsto> checkName)
                                else Tags commonTagsAndMeta);
                        pass = (Status resp = wantStatus);
                        sample = \<lparr>Metric = Checks (BuiltinMetrics st), sample_Tags = tags,
                                   Time = now, sample_Metadata = Metadata commonTagsAndMeta,
                                   Value = 0\<rparr>
                    in ((pass, None),
                        Some (st\<lparr>state_Samples :=
                                PushIfNotDone ctx (state_Samples st) (SingleSample sample)\<rparr>)))))"

text \<open>
  \<open>Group.Check\<close> of k6's \<open>lib\<close> package: the group's check of that name, created on first
  use; a name that contains the group separator \<open>::\<close> is refused.
\<close>

fun contains_GroupSeparator :: "string \<Rightarrow> bool" where
  "contains_GroupSeparator (a # b # cs) =
     ((a = CHR '':'' \<and> b = CHR '':'') \<or> contains_GroupSeparator (b # cs))"
| "contains_GroupSeparator cs = False"

definition Group_Check :: "string \<Rightarrow> (string \<rightharpoonup> Check) \<Rightarrow> string + Check \<times> (string \<rightharpoonup> Check)" where
  "Group_Check name g =
     (case g name of
        Some c \<Rightarrow> Inr (c, g)
      | None \<Rightarrow>
          if contains_GroupSeparator name
          then Inl ''group and check names may not contain ::''
          else let c = \<lparr>check_Name = name, Passes = 0, Fails = 0\<rparr> in Inr (c, g(name \<mapsto> c)))"

definition CheckStatus_goja ::
    "('v \<Rightarrow> TagsAndMeta \<Rightarrow> string + TagsAndMeta) \<Rightarrow> Context \<Rightarrow> int \<Rightarrow> lib_State option
      \<Rightarrow> int \<Rightarrow> js_object option \<Rightarrow> 'v list \<Rightarrow> (bool \<times> string option) \<times> lib_State option" where
  "CheckStatus_goja apply ctx now state wantStatus r extras =
     (case state of
        None \<Rightarrow> ((False, Some ErrCheckInInitContext), None)
      | Some st \<Rightarrow>
          (case r of
             None \<Rightarrow> ((False, Some ''nil response''), Some st)
           | Some OtherObject \<Rightarrow>
               ((False, Some ''response object not given to CheckStatus''), Some st)
           | Some (ResponseObject resp) \<Rightarrow>
               (case (case extras of [] \<Rightarrow> Inr (state_Tags st)
                      | x # xs \<Rightarrow> apply x (state_Tags st)) of
                  Inl err \<Rightarrow> ((False, Some err), Some st)
                | Inr commonTagsAndMeta \<Rightarrow>
                    (case Group_Check (''check status is '' @ Itoa wantStatus) (Group st) of
                       Inl err \<Rightarrow> ((False, Some err), Some st)
                     | Inr (check, g) \<Rightarrow>
                         let tags = (if TagCheck \<in> SystemTags st
                                     then (Tags commonTagsAndMeta)(''check'' \<mapsto> check_Name check)
                                     else Tags commonTagsAndMeta);
                             pass = (Status resp = wantStatus);
                             sample = \<lparr>Metric = Checks (BuiltinMetrics st), sample_Tags = tags,
                                        Time = now,
                                        sample_Metadata = Metadata commonTagsAndMeta,
                                        Value = 0\<rparr>;
                             check1 = (if pass then check\<lparr>Passes := Passes check + 1\<rparr>
                                       else check\<lparr>Fails := Fails check + 1\<rparr>);
                             sample1 = (if pass then sample\<lparr>Value := 1\<rparr> else sample)
                         in ((pass, None),
                             Some (st\<lparr>Group := g(check_Name check \<mapsto> check1),
                                     state_Samples :=
                                       PushIfNotDone ctx (state_Samples st)
                                         (SingleSample sample1)\<rparr>))))))"

section \<open>Example values\<close>

text \<open>
  Concrete values at which the definitions are evaluated below. The platform's numbers
  and the library's texts are placeholders.
\<close>

definition example_env :: env where
  "example_env =
     \<lparr>GOOS = ''windows'', ECONNRESET = 10054, EPIPE = 32, ECONNREFUSED = 10061,
      WSAECONNRESET = 10054,
      lib_Error = (\<lambda>e. case e of
                          DNSError err name server \<Rightarrow> ''lookup '' @ name @ '': '' @ err
                        | _ \<Rightarrow> ''error''),
      http2_ErrCode_String = (\<lambda>c. ''ErrCode'' @ Itoa (uint c)),
      SplitHostPort = (\<lambda>a. None)\<rparr>"

definition example_metrics :: BuiltinMetrics where
  "example_metrics =
     \<lparr>HTTPReqs = ''http_reqs'', HTTPReqDuration = ''http_req_duration'',
      HTTPReqFailed = ''http_req_failed'', Checks = ''checks''\<rparr>"

definition no_tags :: TagsAndMeta where
  "no_tags = \<lparr>Tags = Map.empty, Metadata = Map.empty\<rparr>"

definition example_state :: "SystemTag set \<Rightarrow> lib_State" where
  "example_state enabled =
     \<lparr>SystemTags = enabled, BuiltinMetrics = example_metrics, state_Samples = [],
      Logger = [], state_Tags = no_tags, Group = Map.empty\<rparr>"

definition example_trail :: Trail where
  "example_trail =
     \<lparr>EndTime = 0, ConnDuration = 0, Duration = 2000000, ConnRemoteAddr = None,
      Failed = \<lparr>Bool = False, Valid = False\<rparr>, trail_Tags = Map.empty,
      trail_Metadata = Map.empty, Samples = []\<rparr>"

definition example_request :: "string \<Rightarrow> int \<Rightarrow> error option \<Rightarrow> UnfinishedRequest" where
  "example_request u status e =
     \<lparr>Ctx = Context False, Trail = example_trail,
      Request = \<lparr>RequestURI = u, Method = ''GET'', Body = [], BodyStream = None\<rparr>,
      Response = \<lparr>StatusCode = status\<rparr>, Err = e\<rparr>"

section \<open>Properties\<close>

subsection \<open>The classifier returns\<close>

lemma errorCodeForNetOpError_returns:
  assumes "\<And>w. e = Some w \<Longrightarrow> \<exists>c m. ErrorCodeForError E (Some w) = Inr (c, m)"
  shows "\<exists>c m. errorCodeForNetOpError E op n e = Inr (c, m)"
proof (cases e)
  case None
  then show ?thesis
    by (simp add: errorCodeForNetOpError.simps)
next
  case (Some w)
  with assms obtain c m where cm: "ErrorCodeForError E (Some w) = Inr (c, m)"
    by blast
  show ?thesis
  proof (cases "\<exists>s se. w = SyscallError s se")
    case True
    then obtain s se where w: "w = SyscallError s se" by blast
    show ?thesis
    proof (cases se)
      case None
      with cm Some w show ?thesis
        by (subst errorCodeForNetOpError.simps) (simp add: Let_def getOSSyscallErrorCode_def)
    next
      case (Some y)
      with cm \<open>e = Some w\<close> w show ?thesis
        by (subst errorCodeForNetOpError.simps)
           (cases y; simp add: Let_def getOSSyscallErrorCode_def split: prod.splits)
    qed
  next
    case False
    with cm Some show ?thesis
      by (subst errorCodeForNetOpError.simps) (cases w; simp add: Let_def)
  qed
qed

lemma ErrorCodeForError_returns:
  "url_errors_wrap e \<Longrightarrow> \<exists>c m. ErrorCodeForError E (Some e) = Inr (c, m)"
proof (induction e)
  case (OpError op n x)
  have "\<exists>c m. errorCodeForNetOpError E op n x = Inr (c, m)"
  proof (rule errorCodeForNetOpError_returns)
    fix w assume "x = Some w"
    with OpError show "\<exists>c m. ErrorCodeForError E (Some w) = Inr (c, m)" by simp
  qed
  then show ?case by simp
next
  case (URLError op u x)
  then show ?case by (cases x) simp_all
next
  case (SyscallError s x)
  then show ?case by (cases x) simp_all
next
  case (OtherError tx x)
  then show ?case by (cases x) simp_all
qed simp_all

lemma unrecognized_fallback:
  "\<not> recognized e \<Longrightarrow> errors_Unwrap e = None \<Longrightarrow>
   ErrorCodeForError E (Some e) = Inr (1000, Error E e)"
  by (cases e) (simp_all add: defaultErrorCode_def)

lemma K6Error_verbatim:
  "ErrorCodeForError E (Some (K6Error c m orig)) = Inr (c, m)"
  by simp

lemma transparent_layer:
  "wraps_transparently outer inner \<Longrightarrow>
   ErrorCodeForError E (Some outer) = ErrorCodeForError E (Some inner)"
  by (cases outer) (simp_all add: wraps_transparently_def)

subsection \<open>HTTP/2 protocol errors\<close>

text \<open>
  C5. For an HTTP/2 GoAway, stream or connection error, \<open>ErrorCodeForError\<close> returns (it
  does not panic): when the protocol subcode is at most 13 (\<open>ErrCodeHTTP11Required\<close>)
  the code is the partition's base code plus 1 plus the subcode, and for every larger
  subcode it is the partition's unknown code, 1610, 1630 or 1650.
\<close>

theorem http2_subcode_classification:
  "ErrorCodeForError E (Some (GoAwayError sid code dbg)) =
     Inr (if code \<le> 13 then 1610 + 1 + code else 1610,
          ''http2: received GoAway with http2 ErrCode '' @ http2_ErrCode_String E code)
   \<and> ErrorCodeForError E (Some (StreamError sid code cause)) =
     Inr (if code \<le> 13 then 1630 + 1 + code else 1630,
          ''http2: stream error with http2 ErrCode '' @ http2_ErrCode_String E code)
   \<and> ErrorCodeForError E (Some (ConnectionError code)) =
     Inr (if code \<le> 13 then 1650 + 1 + code else 1650,
          ''http2: connection error with http2 ErrCode '' @ http2_ErrCode_String E code)"
  by (auto simp add: http2ErrCodeOffset_def ErrCodeHTTP11Required_def
        unknownHTTP2GoAwayErrorCode_def unknownHTTP2StreamErrorCode_def
        unknownHTTP2ConnectionErrorCode_def)

theorem http2_subcode_classification_witness:
  "ErrorCodeForError example_env (Some (GoAwayError 0 5 [])) =
     Inr (1616, ''http2: received GoAway with http2 ErrCode ErrCode5'')
   \<and> ErrorCodeForError example_env (Some (StreamError 0 14 None)) =
     Inr (1630, ''http2: stream error with http2 ErrCode ErrCode14'')
   \<and> ErrorCodeForError example_env (Some (ConnectionError 13)) =
     Inr (1664, ''http2: connection error with http2 ErrCode ErrCode13'')"
  using http2_subcode_classification [of example_env 0 5 "[]" None]
    http2_subcode_classification [of example_env 0 14 "[]" None]
    http2_subcode_classification [of example_env 0 13 "[]" None]
  by (simp add: example_env_def Itoa_def digits.simps)

subsection \<open>Wrapped errors\<close>

text \<open>
  C3, as the code has it. When the outer and the inner layer of an error are transparent
  wrappers (each a \<open>*url.Error\<close>, or of a type the switch names no case for, whose
  \<open>Unwrap\<close> returns the next layer), the error classifies as its cause does; and a URL
  error around a DNS error "no such host" gets the code 1101 with the text
  "lookup: no such host". A layer of a type the switch does name (a \<open>K6Error\<close>, a
  \<open>*net.OpError\<close>) is classified by its own case although it supports \<open>Unwrap\<close>.
\<close>

theorem transparent_wrappers_classify_as_cause:
  "(wraps_transparently outer inner \<longrightarrow> wraps_transparently inner cause \<longrightarrow>
      ErrorCodeForError E (Some outer) = ErrorCodeForError E (Some cause))
   \<and> ErrorCodeForError E (Some (URLError op u (Some (DNSError ''no such host'' name server))))
       = Inr (1101, ''lookup: no such host'')"
  using transparent_layer [of outer inner E] transparent_layer [of inner cause E]
  by (simp add: dnsNoSuchHostErrorCode_def)

theorem transparent_wrappers_classify_as_cause_witness:
  "wraps_transparently
     (URLError ''Get'' ''http://nowhere.invalid''
        (Some (SyscallError ''getaddrinfo'' (Some (DNSError ''no such host'' ''nowhere.invalid'' [])))))
     (SyscallError ''getaddrinfo'' (Some (DNSError ''no such host'' ''nowhere.invalid'' [])))
   \<and> wraps_transparently
     (SyscallError ''getaddrinfo'' (Some (DNSError ''no such host'' ''nowhere.invalid'' [])))
     (DNSError ''no such host'' ''nowhere.invalid'' [])
   \<and> ErrorCodeForError example_env
       (Some (URLError ''Get'' ''http://nowhere.invalid''
          (Some (SyscallError ''getaddrinfo''
             (Some (DNSError ''no such host'' ''nowhere.invalid'' []))))))
     = ErrorCodeForError example_env (Some (DNSError ''no such host'' ''nowhere.invalid'' []))"
  using transparent_wrappers_classify_as_cause
    [of "URLError ''Get'' ''http://nowhere.invalid''
           (Some (SyscallError ''getaddrinfo''
              (Some (DNSError ''no such host'' ''nowhere.invalid'' []))))"
        "SyscallError ''getaddrinfo'' (Some (DNSError ''no such host'' ''nowhere.invalid'' []))"
        "DNSError ''no such host'' ''nowhere.invalid'' []" example_env]
  by (simp add: wraps_transparently_def)

text \<open>
  The claim as stated counts every error that supports \<open>Unwrap\<close> as a transparent
  wrapper. A \<open>K6Error\<close> supports \<open>Unwrap\<close>, and around a URL error around a DNS error
  "no such host" it classifies as its own code and message, not as the cause.
\<close>

theorem unwrap_support_is_not_transparency:
  "errors_Unwrap
     (K6Error 1050 ''request timeout''
        (Some (URLError ''Get'' ''http://nowhere.invalid''
           (Some (DNSError ''no such host'' ''nowhere.invalid'' [])))))
     = Some (URLError ''Get'' ''http://nowhere.invalid''
               (Some (DNSError ''no such host'' ''nowhere.invalid'' [])))
   \<and> errors_Unwrap
       (URLError ''Get'' ''http://nowhere.invalid''
          (Some (DNSError ''no such host'' ''nowhere.invalid'' [])))
     = Some (DNSError ''no such host'' ''nowhere.invalid'' [])
   \<and> ErrorCodeForError example_env
       (Some (K6Error 1050 ''request timeout''
          (Some (URLError ''Get'' ''http://nowhere.invalid''
             (Some (DNSError ''no such host'' ''nowhere.invalid'' []))))))
     = Inr (1050, ''request timeout'')
   \<and> ErrorCodeForError example_env (Some (DNSError ''no such host'' ''nowhere.invalid'' []))
     = Inr (1101, ''lookup: no such host'')"
  by (simp add: dnsNoSuchHostErrorCode_def)

subsection \<open>Totality of the classifier\<close>

text \<open>
  C8. The \<open>*url.Error\<close> case passes the wrapped error to \<open>ErrorCodeForError\<close> without
  the \<open>nil\<close> test that the default case and \<open>errorCodeForNetOpError\<close> make: for a URL error
  whose \<open>Err\<close> is \<open>nil\<close> the classifier reaches \<open>err.Error()\<close> on a nil interface and
  panics, where the claim has it return the fallback code. (For every error in which the
  URL errors wrap an error it returns, by \<open>ErrorCodeForError_returns\<close>; an error of no
  named type that wraps nothing gets code 1000 with its own text, by
  \<open>unrecognized_fallback\<close>; a \<open>K6Error\<close> gets its stored pair, by \<open>K6Error_verbatim\<close>.)
\<close>

theorem url_error_without_cause_panics:
  "ErrorCodeForError E (Some (URLError op u None)) = Inl NilPointerDereference"
  by simp

theorem url_error_without_cause_panics_witness:
  "ErrorCodeForError example_env (Some (URLError ''Get'' ''http://nowhere.invalid'' None))
     = Inl NilPointerDereference"
  using url_error_without_cause_panics [of example_env "''Get''" "''http://nowhere.invalid''"]
  by simp

section \<open>Trail samples\<close>

lemma SaveSamples_Samples:
  "Samples (SaveSamples bm ctm tr) =
     [\<lparr>Metric = HTTPReqs bm, sample_Tags = Tags ctm, Time = EndTime tr,
       sample_Metadata = Metadata ctm, Value = 1\<rparr>,
      \<lparr>Metric = HTTPReqDuration bm, sample_Tags = Tags ctm, Time = EndTime tr,
       sample_Metadata = Metadata ctm, Value = D (Duration tr)\<rparr>]"
  by (simp add: SaveSamples_def Let_def)

lemma SaveSamples_Failed: "Failed (SaveSamples bm ctm tr) = Failed tr"
  by (simp add: SaveSamples_def Let_def)

text \<open>
  C9, as the code has it. \<open>SaveSamples\<close> replaces the Trail's sample list by a new one
  before it appends: a second call with the same arguments leaves the Trail as the first
  call left it, holding the request-count and the request-duration sample once each,
  whatever samples the Trail held before.
\<close>

theorem SaveSamples_idempotent:
  "SaveSamples bm ctm (SaveSamples bm ctm tr) = SaveSamples bm ctm tr
   \<and> length (Samples (SaveSamples bm ctm (SaveSamples bm ctm tr))) = 2
   \<and> map Metric (Samples (SaveSamples bm ctm (SaveSamples bm ctm tr)))
       = [HTTPReqs bm, HTTPReqDuration bm]"
  by (simp add: SaveSamples_def Let_def)

theorem SaveSamples_idempotent_witness:
  "SaveSamples example_metrics no_tags (SaveSamples example_metrics no_tags example_trail)
     = SaveSamples example_metrics no_tags example_trail
   \<and> map Metric
        (Samples (SaveSamples example_metrics no_tags
                    (SaveSamples example_metrics no_tags example_trail)))
       = [''http_reqs'', ''http_req_duration'']"
  using SaveSamples_idempotent [of example_metrics no_tags example_trail]
  by (simp add: example_metrics_def SaveSamples_def Let_def)

text \<open>
  The claim as stated has the second call leave four samples, the two base samples
  twice. On the example Trail it leaves two.
\<close>

theorem second_SaveSamples_appends_no_duplicates:
  "length (Samples (SaveSamples example_metrics no_tags
                      (SaveSamples example_metrics no_tags example_trail))) \<noteq> 4
   \<and> map Metric
        (Samples (SaveSamples example_metrics no_tags
                    (SaveSamples example_metrics no_tags example_trail)))
       \<noteq> [''http_reqs'', ''http_req_duration'', ''http_reqs'', ''http_req_duration'']"
  by (simp add: SaveSamples_def Let_def example_metrics_def)

section \<open>Reuse of a pooled request\<close>

lemma setupCachedReq_without_body:
  "\<not> setBody m (wrapper_Body reqw) \<Longrightarrow>
   setupCachedReq logger reqw m =
     (None, reqw\<lparr>req := (req reqw)\<lparr>Method := m, Body := [], BodyStream := None\<rparr>\<rparr>, logger)"
  by (simp add: setupCachedReq_def SetMethod_def SetBodyStream_def SetBody_def)

lemma setupCachedReq_with_body_keeps_method:
  "setBody m (wrapper_Body reqw) \<Longrightarrow>
   Method (req (fst (snd (setupCachedReq logger reqw m)))) = Method (req reqw)"
  by (auto simp: setupCachedReq_def SetBodyStream_def Seek_start_def
           split: option.splits body.splits sum.splits)

text \<open>
  C6. When the current call carries a body, \<open>setupCachedReq\<close> returns before the line
  that sets the method (and installs a body only for a file stream): a pooled instance
  last issued as \<open>GET\<close>, reused for a \<open>POST\<close> of a request definition with a string body,
  keeps the method \<open>GET\<close> and no body, where the claim has the method set to the current
  call's. (For a call without a body the method is set and the body cleared, by
  \<open>setupCachedReq_without_body\<close>.)
\<close>

theorem setupCachedReq_keeps_stale_method:
  "setupCachedReq []
     \<lparr>Throw = False, DisableKeepAlive = False, Url = ''http://localhost:8080/'', Host = [],
      Headers = Map.empty, wrapper_Body = Some (BodyString ''payload''),
      req = \<lparr>RequestURI = ''http://localhost:8080/'', Method = ''GET'', Body = [],
             BodyStream = None\<rparr>,
      ResponseType = []\<rparr>
     MethodPost
   = (None,
      \<lparr>Throw = False, DisableKeepAlive = False, Url = ''http://localhost:8080/'', Host = [],
       Headers = Map.empty, wrapper_Body = Some (BodyString ''payload''),
       req = \<lparr>RequestURI = ''http://localhost:8080/'', Method = ''GET'', Body = [],
              BodyStream = None\<rparr>,
       ResponseType = []\<rparr>,
      [])"
  by (simp add: setupCachedReq_def setBody_def MethodPost_def MethodHead_def MethodGet_def)

theorem setupCachedReq_keeps_stale_method_witness:
  "Method (req (fst (snd (setupCachedReq []
     \<lparr>Throw = False, DisableKeepAlive = False, Url = ''http://localhost:8080/'', Host = [],
      Headers = Map.empty, wrapper_Body = Some (BodyString ''payload''),
      req = \<lparr>RequestURI = ''http://localhost:8080/'', Method = ''GET'', Body = [],
             BodyStream = None\<rparr>,
      ResponseType = []\<rparr>
     MethodPost)))) = ''GET''"
  using setupCachedReq_keeps_stale_method
  by simp

section \<open>The status check\<close>

lemma CheckStatus_sobek_sample:
  "CheckStatus_sobek apply ctx now (Some st) want (Some (ResponseObject resp)) [] =
     ((Status resp = want, None),
      Some (st\<lparr>state_Samples :=
              PushIfNotDone ctx (state_Samples st)
                (SingleSample
                   \<lparr>Metric = Checks (BuiltinMetrics st),
                    sample_Tags =
                      (if TagCheck \<in> SystemTags st
                       then (Tags (state_Tags st))(''check'' \<mapsto> ''check status is '' @ Itoa want)
                       else Tags (state_Tags st)),
                    Time = now, sample_Metadata = Metadata (state_Tags st),
                    Value = 0\<rparr>)\<rparr>))"
  by (simp add: CheckStatus_sobek_def Let_def)

text \<open>
  C7. The version of \<open>CheckStatus\<close> bound to sobek builds its sample with the value 0
  and never sets it to 1: a response of status 200 checked against 200 returns true and
  records a sample of value 0, where the claim (and the version bound to goja, see
  \<open>CheckStatus_goja_passes\<close>) has the value 1 on a pass.
\<close>

theorem CheckStatus_sobek_pass_records_zero:
  "CheckStatus_sobek apply (Context False) 7 (Some (example_state {TagCheck})) 200
     (Some (ResponseObject \<lparr>Status = 200\<rparr>)) []
   = ((True, None),
      Some ((example_state {TagCheck})
        \<lparr>state_Samples :=
           [SingleSample
              \<lparr>Metric = ''checks'',
               sample_Tags = [''check'' \<mapsto> ''check status is 200''],
               Time = 7, sample_Metadata = Map.empty, Value = 0\<rparr>]\<rparr>))"
  by (simp add: CheckStatus_sobek_sample PushIfNotDone_def example_state_def no_tags_def
        example_metrics_def Itoa_def digits.simps)

theorem CheckStatus_sobek_pass_records_zero_witness:
  "fst (CheckStatus_sobek (\<lambda>(x :: unit) tm. Inr tm) (Context False) 7
          (Some (example_state {TagCheck})) 200 (Some (ResponseObject \<lparr>Status = 200\<rparr>)) [])
     = (True, None)
   \<and> map_option state_Samples
        (snd (CheckStatus_sobek (\<lambda>(x :: unit) tm. Inr tm) (Context False) 7
                (Some (example_state {TagCheck})) 200
                (Some (ResponseObject \<lparr>Status = 200\<rparr>)) []))
     = Some [SingleSample
              \<lparr>Metric = ''checks'',
               sample_Tags = [''check'' \<mapsto> ''check status is 200''],
               Time = 7, sample_Metadata = Map.empty, Value = 0\<rparr>]"
  using CheckStatus_sobek_pass_records_zero [of "\<lambda>(x :: unit) tm. Inr tm"]
  by simp

lemma CheckStatus_goja_passes:
  "CheckStatus_goja apply (Context False) 7 (Some (example_state {TagCheck})) 200
     (Some (ResponseObject \<lparr>Status = 200\<rparr>)) []
   = ((True, None),
      Some ((example_state {TagCheck})
        \<lparr>Group := [''check status is 200'' \<mapsto>
                     \<lparr>check_Name = ''check status is 200'', Passes = 1, Fails = 0\<rparr>],
         state_Samples :=
           [SingleSample
              \<lparr>Metric = ''checks'',
               sample_Tags = [''check'' \<mapsto> ''check status is 200''],
               Time = 7, sample_Metadata = Map.empty, Value = 1\<rparr>]\<rparr>))"
  by (simp add: CheckStatus_goja_def Group_Check_def Let_def PushIfNotDone_def
        example_state_def no_tags_def example_metrics_def Itoa_def digits.simps)

section \<open>The metric dispatcher\<close>

lemma Tags_SetIfEnabled:
  "Tags (SetSystemTagOrMetaIfEnabled en tag v tm) =
     (if tag \<in> en \<and> tag \<notin> NonIndexableSystemTags
      then (Tags tm)(SystemTag_String tag \<mapsto> v) else Tags tm)"
  by (simp add: SetSystemTagOrMetaIfEnabled_def SetSystemTagOrMeta_def)

lemma Tags_ip_tag: "k \<noteq> ''ip'' \<Longrightarrow> Tags (ip_tag E en tr tm) k = Tags tm k"
  by (simp add: ip_tag_def SetSystemTagOrMeta_def NonIndexableSystemTags_def
           split: option.splits prod.splits)

lemma classify_tags_error:
  "Err r = Some e \<Longrightarrow>
   classify_tags E en r tm =
     (case ErrorCodeForError E (Some e) of
        Inl p \<Rightarrow> Inl p
      | Inr (code, msg) \<Rightarrow>
          Inr (code, msg,
               SetSystemTagOrMetaIfEnabled en TagStatus ''0''
                 (SetSystemTagOrMetaIfEnabled en TagErrorCode (Itoa (uint code))
                    (SetSystemTagOrMetaIfEnabled en TagError msg tm))))"
  by (simp add: classify_tags_def Let_def split: sum.splits)

lemma classify_tags_response:
  "Err r = None \<Longrightarrow>
   classify_tags E en r tm =
     (if StatusCode (Response r) \<ge> 400
      then Inr (word_of_int (1000 + StatusCode (Response r)), [],
                SetSystemTagOrMetaIfEnabled en TagErrorCode
                  (Itoa (uint (word_of_int (1000 + StatusCode (Response r)) :: ErrCode)))
                  (SetSystemTagOrMetaIfEnabled en TagStatus (Itoa (StatusCode (Response r))) tm))
      else Inr (0, [], SetSystemTagOrMetaIfEnabled en TagStatus (Itoa (StatusCode (Response r))) tm))"
  by (simp add: classify_tags_def Let_def)

lemma measureAndEmitMetrics_Inr:
  assumes "measureAndEmitMetrics E ctx r t = Inr (fin, t1)"
  shows "\<exists>code msg tm1.
           classify_tags E (SystemTags (State t)) r
             (name_url_method_tags (SystemTags (State t)) r (TagsAndMeta t)) = Inr (code, msg, tm1)
         \<and> ErrorCode fin = code \<and> ErrorMsg fin = msg
         \<and> (\<forall>k. k \<noteq> ''ip'' \<longrightarrow> k \<noteq> ''expected_response'' \<longrightarrow>
                trail_Tags (fin_Trail fin) k = Tags tm1 k)
         \<and> UnfinishedRequest fin = r\<lparr>Trail := fin_Trail fin\<rparr>
         \<and> t1 = t\<lparr>events := events t @ [EvEmit r],
                  State := (State t)\<lparr>state_Samples :=
                     PushIfNotDone ctx (state_Samples (State t)) (TrailSamples (fin_Trail fin))\<rparr>\<rparr>"
  using assms
  unfolding measureAndEmitMetrics_def Let_def
  apply (simp split: sum.splits prod.splits)
  apply (auto simp: SaveSamples_def Let_def Tags_SetIfEnabled Tags_ip_tag NonIndexableSystemTags_def split: option.splits)
  done

lemma measureAndEmitMetrics_returns:
  assumes "classify_tags E (SystemTags (State t)) r
             (name_url_method_tags (SystemTags (State t)) r (TagsAndMeta t)) = Inr x"
  shows "\<exists>fin t1. measureAndEmitMetrics E ctx r t = Inr (fin, t1)"
  using assms
  unfolding measureAndEmitMetrics_def Let_def
  by (simp split: sum.splits prod.splits)

lemma Err_update_same: "Err r = v \<Longrightarrow> r\<lparr>Err := v\<rparr> = r"
  by auto

lemma ProcessLastSavedRequest_eq:
  assumes "\<not> lastRequestLock t"
  shows "ProcessLastSavedRequest E ctx lastErr t =
     (case lastRequest t of
        None \<Rightarrow> Inr (None, drained None t)
      | Some r \<Rightarrow>
          (case measureAndEmitMetrics E ctx
                  (r\<lparr>Err := (if Err r = None then lastErr else Err r)\<rparr>) (drained None t) of
             Inl p \<Rightarrow> Inl p
           | Inr (fin, t4) \<Rightarrow> Inr (Some fin, t4)))"
proof (cases "lastRequest t")
  case None
  with assms show ?thesis
    by (simp add: ProcessLastSavedRequest_def Lock_def Unlock_def store_lastRequest_def
          drained_def Let_def)
next
  case (Some r)
  show ?thesis
  proof (cases "Err r = None")
    case True
    then have same: "r\<lparr>Err := None\<rparr> = r"
      by (simp add: Err_update_same)
    from True Some assms show ?thesis
      by (cases lastErr)
         (simp_all add: same ProcessLastSavedRequest_def Lock_def Unlock_def
            store_lastRequest_def drained_def Let_def)
  next
    case False
    then have same: "r\<lparr>Err := Err r\<rparr> = r" by simp
    from False Some assms show ?thesis
      by (simp add: ProcessLastSavedRequest_def Lock_def Unlock_def store_lastRequest_def
            drained_def Let_def del: not_None_eq)
  qed
qed

lemma SaveCurrentRequest_eq:
  "\<not> lastRequestLock t \<Longrightarrow>
   SaveCurrentRequest E ctx r t =
     (case lastRequest t of
        None \<Rightarrow> Inr (drained (Some r) t)
      | Some q \<Rightarrow>
          (case measureAndEmitMetrics E ctx q
                  ((drained (Some r) t)\<lparr>State := (State t)\<lparr>Logger := Logger (State t) @
                      [''TracerTransport: unexpected unprocessed Request for ''
                         @ RequestURI (Request q)]\<rparr>\<rparr>) of
             Inl p \<Rightarrow> Inl p
           | Inr (fin, t5) \<Rightarrow> Inr t5))"
  by (cases "lastRequest t")
     (auto simp: SaveCurrentRequest_def Lock_def Unlock_def store_lastRequest_def
        drained_def Let_def split: sum.splits)

lemma lock_after_append: "lock_after h (xs @ ys) = lock_after (lock_after h xs) ys"
  by (induction h xs rule: lock_after.induct) simp_all

lemma emits_outside_lock_append:
  "emits_outside_lock h (xs @ ys) =
     (emits_outside_lock h xs \<and> emits_outside_lock (lock_after h xs) ys)"
  by (induction h xs rule: emits_outside_lock.induct) simp_all

lemma emitted_append: "emitted (xs @ ys) = emitted xs @ emitted ys"
  by (induction xs rule: emitted.induct) simp_all

lemma emitted_as_refl: "emitted_as r r"
  by (simp add: emitted_as_def)

lemma emitted_as_enriched: "emitted_as r (r\<lparr>Err := (if Err r = None then lastErr else Err r)\<rparr>)"
  by (simp add: emitted_as_def)

lemma measureAndEmitMetrics_state:
  assumes "measureAndEmitMetrics E ctx r t = Inr (fin, t1)"
  shows "lastRequest t1 = lastRequest t" "lastRequestLock t1 = lastRequestLock t"
    "responseCallback t1 = responseCallback t" "TagsAndMeta t1 = TagsAndMeta t"
    "events t1 = events t @ [EvEmit r]"
    "SystemTags (State t1) = SystemTags (State t)"
    "BuiltinMetrics (State t1) = BuiltinMetrics (State t)"
proof -
  from measureAndEmitMetrics_Inr [OF assms] have
    t1: "t1 = t\<lparr>events := events t @ [EvEmit r],
                  State := (State t)\<lparr>state_Samples :=
                     PushIfNotDone ctx (state_Samples (State t)) (TrailSamples (fin_Trail fin))\<rparr>\<rparr>"
    by (elim exE conjE)
  show "lastRequest t1 = lastRequest t" by (subst t1) simp
  show "lastRequestLock t1 = lastRequestLock t" by (subst t1) simp
  show "responseCallback t1 = responseCallback t" by (subst t1) simp
  show "TagsAndMeta t1 = TagsAndMeta t" by (subst t1) simp
  show "events t1 = events t @ [EvEmit r]" by (subst t1) simp
  show "SystemTags (State t1) = SystemTags (State t)" by (subst t1) simp
  show "BuiltinMetrics (State t1) = BuiltinMetrics (State t)" by (subst t1) simp
qed

lemma step_okI:
  "\<not> lastRequestLock t1 \<Longrightarrow> responseCallback t1 = responseCallback t \<Longrightarrow>
   TagsAndMeta t1 = TagsAndMeta t \<Longrightarrow> events t1 = events t @ evs \<Longrightarrow>
   emits_outside_lock False evs \<Longrightarrow> lock_after False evs = False \<Longrightarrow>
   slot t @ new = A @ slot t1 \<Longrightarrow> list_all2 emitted_as A (emitted evs) \<Longrightarrow>
   step_ok t new t1"
  unfolding step_ok_def by blast

lemma step_okE:
  assumes "step_ok t new t1"
  obtains evs A where "\<not> lastRequestLock t1" "responseCallback t1 = responseCallback t"
    "TagsAndMeta t1 = TagsAndMeta t" "events t1 = events t @ evs"
    "emits_outside_lock False evs" "lock_after False evs = False"
    "slot t @ new = A @ slot t1" "list_all2 emitted_as A (emitted evs)"
  using assms unfolding step_ok_def by blast

lemma exec_op_step:
  assumes "\<not> lastRequestLock t" "exec_op E x t = Inr t1"
  shows "step_ok t (staged [x]) t1"
proof (cases x)
  case (Stage ctx r)
  show ?thesis
  proof (cases "lastRequest t")
    case None
    with assms Stage have "t1 = drained (Some r) t"
      by (simp add: SaveCurrentRequest_eq)
    with None Stage show ?thesis
      by (intro step_okI [where evs = "[EvLock, EvStore (Some r), EvUnlock]" and A = "[]"])
         (simp_all add: drained_def slot_def)
  next
    case (Some q)
    with assms Stage obtain fin where
      m: "measureAndEmitMetrics E ctx q
            ((drained (Some r) t)\<lparr>State := (State t)\<lparr>Logger := Logger (State t) @
                [''TracerTransport: unexpected unprocessed Request for ''
                   @ RequestURI (Request q)]\<rparr>\<rparr>) = Inr (fin, t1)"
      by (auto simp: SaveCurrentRequest_eq split: sum.splits)
    note st = measureAndEmitMetrics_state [OF m]
    from st Some Stage show ?thesis
      by (intro step_okI [where evs = "[EvLock, EvStore (Some r), EvUnlock, EvEmit q]"
                            and A = "[q]"])
         (simp_all add: drained_def slot_def emitted_as_refl)
  qed
next
  case (Drain ctx lastErr)
  show ?thesis
  proof (cases "lastRequest t")
    case None
    with assms Drain have "t1 = drained None t"
      by (auto simp add: ProcessLastSavedRequest_eq)
    with None Drain show ?thesis
      by (intro step_okI [where evs = "[EvLock, EvStore None, EvUnlock]" and A = "[]"])
         (simp_all add: drained_def slot_def)
  next
    case (Some q)
    with assms Drain obtain fin where
      m: "measureAndEmitMetrics E ctx (q\<lparr>Err := (if Err q = None then lastErr else Err q)\<rparr>)
            (drained None t) = Inr (fin, t1)"
      by (auto simp: ProcessLastSavedRequest_eq split: sum.splits)
    note st = measureAndEmitMetrics_state [OF m]
    from st Some Drain emitted_as_enriched [of q lastErr] show ?thesis
      by (intro step_okI [where evs = "[EvLock, EvStore None, EvUnlock,
                                        EvEmit (q\<lparr>Err := (if Err q = None then lastErr else Err q)\<rparr>)]"
                            and A = "[q]"])
         (simp_all add: drained_def slot_def)
  qed
qed

lemma step_ok_trans:
  assumes "step_ok t a t1" "step_ok t1 b t2"
  shows "step_ok t (a @ b) t2"
proof -
  from assms(1) obtain evs1 A1 where
    1: "\<not> lastRequestLock t1" "responseCallback t1 = responseCallback t"
       "TagsAndMeta t1 = TagsAndMeta t"
       "events t1 = events t @ evs1" "emits_outside_lock False evs1"
       "lock_after False evs1 = False" "slot t @ a = A1 @ slot t1"
       "list_all2 emitted_as A1 (emitted evs1)"
    by (rule step_okE)
  from assms(2) obtain evs2 A2 where
    2: "\<not> lastRequestLock t2" "responseCallback t2 = responseCallback t1"
       "TagsAndMeta t2 = TagsAndMeta t1"
       "events t2 = events t1 @ evs2" "emits_outside_lock False evs2"
       "lock_after False evs2 = False" "slot t1 @ b = A2 @ slot t2"
       "list_all2 emitted_as A2 (emitted evs2)"
    by (rule step_okE)
  show ?thesis
  proof (rule step_okI [where evs = "evs1 @ evs2" and A = "A1 @ A2"])
    show "events t2 = events t @ evs1 @ evs2" using 1(4) 2(4) by simp
    show "emits_outside_lock False (evs1 @ evs2)"
      using 1(5,6) 2(5) by (simp add: emits_outside_lock_append)
    show "lock_after False (evs1 @ evs2) = False"
      using 1(6) 2(6) by (simp add: lock_after_append)
    have "slot t @ a @ b = (A1 @ slot t1) @ b" using 1(7) by simp
    also have "\<dots> = A1 @ A2 @ slot t2" using 2(7) by simp
    finally show "slot t @ a @ b = (A1 @ A2) @ slot t2" by simp
    show "list_all2 emitted_as (A1 @ A2) (emitted (evs1 @ evs2))"
      using 1(8) 2(8) by (simp add: emitted_append list_all2_appendI)
  qed (use 1 2 in simp_all)
qed

lemma run_step:
  "\<not> lastRequestLock t \<Longrightarrow> run E ops t = Inr t1 \<Longrightarrow> step_ok t (staged ops) t1"
proof (induction ops arbitrary: t)
  case Nil
  then show ?case
    by (intro step_okI [where evs = "[]" and A = "[]"]) simp_all
next
  case (Cons x xs)
  from Cons.prems obtain t0 where x: "exec_op E x t = Inr t0" and r: "run E xs t0 = Inr t1"
    by (auto split: sum.splits)
  from exec_op_step [OF Cons.prems(1) x] have s0: "step_ok t (staged [x]) t0" .
  then have "\<not> lastRequestLock t0" by (simp add: step_ok_def)
  from Cons.IH [OF this r] have "step_ok t0 (staged xs) t1" .
  with s0 have "step_ok t (staged [x] @ staged xs) t1" by (rule step_ok_trans)
  moreover have "staged [x] @ staged xs = staged (x # xs)" by (cases x) simp_all
  ultimately show ?case by simp
qed

lemma classify_tags_returns:
  "err_ok (Err r) \<Longrightarrow> \<exists>x. classify_tags E en r tm = Inr x"
proof (cases "Err r")
  case None
  then show ?thesis by (simp add: classify_tags_response)
next
  case (Some e)
  assume "err_ok (Err r)"
  with Some have "url_errors_wrap e" by (simp add: err_ok_def)
  from ErrorCodeForError_returns [OF this, of E] obtain c m
    where "ErrorCodeForError E (Some e) = Inr (c, m)" by blast
  with Some show ?thesis by (simp add: classify_tags_error)
qed

lemma measureAndEmitMetrics_returns_ok:
  assumes "err_ok (Err r)"
  shows "\<exists>fin t1. measureAndEmitMetrics E ctx r t = Inr (fin, t1)"
proof -
  from classify_tags_returns [OF assms] obtain x where
    "classify_tags E (SystemTags (State t)) r
       (name_url_method_tags (SystemTags (State t)) r (TagsAndMeta t)) = Inr x"
    by blast
  then show ?thesis by (rule measureAndEmitMetrics_returns)
qed

lemma exec_op_returns:
  assumes "\<not> lastRequestLock t" "op_ok x" "slot_ok t"
  shows "\<exists>t1. exec_op E x t = Inr t1 \<and> slot_ok t1"
proof (cases x)
  case (Stage ctx r)
  show ?thesis
  proof (cases "lastRequest t")
    case None
    with assms Stage show ?thesis
      by (simp add: SaveCurrentRequest_eq slot_ok_def slot_def drained_def)
  next
    case (Some q)
    with assms have "err_ok (Err q)" by (simp add: slot_ok_def slot_def)
    from measureAndEmitMetrics_returns_ok [OF this] obtain fin t1 where
      m: "measureAndEmitMetrics E ctx q
            ((drained (Some r) t)\<lparr>State := (State t)\<lparr>Logger := Logger (State t) @
                [''TracerTransport: unexpected unprocessed Request for ''
                   @ RequestURI (Request q)]\<rparr>\<rparr>) = Inr (fin, t1)"
      by blast
    from measureAndEmitMetrics_state(1) [OF m] have "lastRequest t1 = Some r"
      by (simp add: drained_def)
    with assms Stage Some m show ?thesis
      by (simp add: SaveCurrentRequest_eq slot_ok_def slot_def)
  qed
next
  case (Drain ctx lastErr)
  show ?thesis
  proof (cases "lastRequest t")
    case None
    with assms Drain show ?thesis
      by (simp add: ProcessLastSavedRequest_eq slot_ok_def slot_def drained_def)
  next
    case (Some q)
    with assms Drain have "err_ok (Err (q\<lparr>Err := (if Err q = None then lastErr else Err q)\<rparr>))"
      by (simp add: slot_ok_def slot_def)
    from measureAndEmitMetrics_returns_ok [OF this] obtain fin t1 where
      m: "measureAndEmitMetrics E ctx (q\<lparr>Err := (if Err q = None then lastErr else Err q)\<rparr>)
            (drained None t) = Inr (fin, t1)"
      by blast
    from measureAndEmitMetrics_state(1) [OF m] have "lastRequest t1 = None"
      by (simp add: drained_def)
    with assms Drain Some m show ?thesis
      by (simp add: ProcessLastSavedRequest_eq slot_ok_def slot_def)
  qed
qed

lemma run_returns:
  "\<not> lastRequestLock t \<Longrightarrow> slot_ok t \<Longrightarrow> list_all op_ok ops \<Longrightarrow> \<exists>t1. run E ops t = Inr t1"
proof (induction ops arbitrary: t)
  case Nil
  then show ?case by simp
next
  case (Cons x xs)
  from exec_op_returns [OF Cons.prems(1) _ Cons.prems(2), of x E] Cons.prems(3)
  obtain t0 where x: "exec_op E x t = Inr t0" and ok: "slot_ok t0" by auto
  from exec_op_step [OF Cons.prems(1) x] have "\<not> lastRequestLock t0"
    by (simp add: step_ok_def)
  from Cons.IH [OF this ok] Cons.prems(3) x show ?case by simp
qed

lemma Tags_name_url_method_tags:
  "k \<noteq> ''name'' \<Longrightarrow> k \<noteq> ''url'' \<Longrightarrow> k \<noteq> ''method'' \<Longrightarrow>
   Tags (name_url_method_tags en r tm) k = Tags tm k"
  by (simp add: name_url_method_tags_def Let_def Tags_SetIfEnabled split: option.splits)

lemma Tags_classify_tags:
  "classify_tags E en r tm = Inr (code, msg, tm1) \<Longrightarrow>
   k \<noteq> ''error'' \<Longrightarrow> k \<noteq> ''error_code'' \<Longrightarrow> k \<noteq> ''status'' \<Longrightarrow> Tags tm1 k = Tags tm k"
  by (auto simp: classify_tags_def Let_def Tags_SetIfEnabled
           split: option.splits sum.splits if_splits)

lemma measureAndEmitMetrics_no_callback:
  assumes "responseCallback t = None" "measureAndEmitMetrics E ctx r t = Inr (fin, t1)"
  shows "Samples (fin_Trail fin) =
           [\<lparr>Metric = HTTPReqs (BuiltinMetrics (State t)),
             sample_Tags = trail_Tags (fin_Trail fin), Time = EndTime (Trail r),
             sample_Metadata = trail_Metadata (fin_Trail fin), Value = 1\<rparr>,
            \<lparr>Metric = HTTPReqDuration (BuiltinMetrics (State t)),
             sample_Tags = trail_Tags (fin_Trail fin), Time = EndTime (Trail r),
             sample_Metadata = trail_Metadata (fin_Trail fin),
             Value = D (Duration (Trail r))\<rparr>]"
    and "Failed (fin_Trail fin) = Failed (Trail r)"
    and "trail_Tags (fin_Trail fin) ''expected_response''
           = Tags (TagsAndMeta t) ''expected_response''"
    and "responseCallback t1 = None"
proof -
  from assms(2) obtain code msg tm1 where
    c: "classify_tags E (SystemTags (State t)) r
          (name_url_method_tags (SystemTags (State t)) r (TagsAndMeta t)) = Inr (code, msg, tm1)"
    unfolding measureAndEmitMetrics_def Let_def
    by (auto split: sum.splits prod.splits)
  from assms c have
    f: "fin_Trail fin =
          SaveSamples (BuiltinMetrics (State t))
            (ip_tag E (SystemTags (State t)) (Trail r) tm1) (Trail r)"
    unfolding measureAndEmitMetrics_def Let_def by auto
  show "Samples (fin_Trail fin) =
           [\<lparr>Metric = HTTPReqs (BuiltinMetrics (State t)),
             sample_Tags = trail_Tags (fin_Trail fin), Time = EndTime (Trail r),
             sample_Metadata = trail_Metadata (fin_Trail fin), Value = 1\<rparr>,
            \<lparr>Metric = HTTPReqDuration (BuiltinMetrics (State t)),
             sample_Tags = trail_Tags (fin_Trail fin), Time = EndTime (Trail r),
             sample_Metadata = trail_Metadata (fin_Trail fin),
             Value = D (Duration (Trail r))\<rparr>]"
    by (simp add: f SaveSamples_def Let_def)
  show "Failed (fin_Trail fin) = Failed (Trail r)"
    by (simp add: f SaveSamples_Failed)
  have "trail_Tags (fin_Trail fin) ''expected_response'' = Tags tm1 ''expected_response''"
    by (simp add: f SaveSamples_def Let_def Tags_ip_tag)
  also have "\<dots> = Tags (name_url_method_tags (SystemTags (State t)) r (TagsAndMeta t))
                      ''expected_response''"
    by (rule Tags_classify_tags [OF c]) simp_all
  also have "\<dots> = Tags (TagsAndMeta t) ''expected_response''"
    by (rule Tags_name_url_method_tags) simp_all
  finally show "trail_Tags (fin_Trail fin) ''expected_response''
           = Tags (TagsAndMeta t) ''expected_response''" .
  from measureAndEmitMetrics_state(3) [OF assms(2)] assms(1)
  show "responseCallback t1 = None" by simp
qed

lemma measureAndEmitMetrics_classified:
  assumes "measureAndEmitMetrics E ctx r t = Inr (fin, t1)"
  shows "Err (UnfinishedRequest fin) = Err r"
    and "Err r = Some e \<Longrightarrow> ErrorCodeForError E (Some e) = Inr (ErrorCode fin, ErrorMsg fin)"
    and "Err r = None \<Longrightarrow> StatusCode (Response r) \<ge> 400 \<Longrightarrow>
           ErrorCode fin = word_of_int (1000 + StatusCode (Response r))"
    and "Err r = None \<Longrightarrow> \<not> StatusCode (Response r) \<ge> 400 \<Longrightarrow> ErrorCode fin = 0"
proof -
  from measureAndEmitMetrics_Inr [OF assms] obtain code msg tm1 where
    c: "classify_tags E (SystemTags (State t)) r
          (name_url_method_tags (SystemTags (State t)) r (TagsAndMeta t)) = Inr (code, msg, tm1)"
    and f: "ErrorCode fin = code" "ErrorMsg fin = msg"
    and u: "UnfinishedRequest fin = r\<lparr>Trail := fin_Trail fin\<rparr>"
    by (elim exE conjE)
  show "Err (UnfinishedRequest fin) = Err r" by (simp add: u)
  show "Err r = Some e \<Longrightarrow> ErrorCodeForError E (Some e) = Inr (ErrorCode fin, ErrorMsg fin)"
    using c f by (auto simp: classify_tags_error split: sum.splits)
  show "Err r = None \<Longrightarrow> StatusCode (Response r) \<ge> 400 \<Longrightarrow>
           ErrorCode fin = word_of_int (1000 + StatusCode (Response r))"
    using c f by (auto simp: classify_tags_response)
  show "Err r = None \<Longrightarrow> \<not> StatusCode (Response r) \<ge> 400 \<Longrightarrow> ErrorCode fin = 0"
    using c f by (auto simp: classify_tags_response)
qed

lemma ProcessLastSavedRequest_staged:
  assumes "\<not> lastRequestLock t" "lastRequest t = Some r"
    "ProcessLastSavedRequest E ctx lastErr t = Inr (res, t1)"
  shows "\<exists>fin. res = Some fin
           \<and> Err (UnfinishedRequest fin) = (if Err r = None then lastErr else Err r)
           \<and> (\<forall>e. (if Err r = None then lastErr else Err r) = Some e \<longrightarrow>
                  ErrorCodeForError E (Some e) = Inr (ErrorCode fin, ErrorMsg fin))
           \<and> lastRequest t1 = None"
proof -
  from assms obtain fin where
    m: "measureAndEmitMetrics E ctx (r\<lparr>Err := (if Err r = None then lastErr else Err r)\<rparr>)
          (drained None t) = Inr (fin, t1)" and res: "res = Some fin"
    by (auto simp: ProcessLastSavedRequest_eq split: sum.splits)
  from measureAndEmitMetrics_classified(1) [OF m]
  have 1: "Err (UnfinishedRequest fin) = (if Err r = None then lastErr else Err r)" by simp
  have 2: "\<forall>e. (if Err r = None then lastErr else Err r) = Some e \<longrightarrow>
                  ErrorCodeForError E (Some e) = Inr (ErrorCode fin, ErrorMsg fin)"
    using measureAndEmitMetrics_classified(2) [OF m] by simp
  from measureAndEmitMetrics_state(1) [OF m] have 3: "lastRequest t1 = None"
    by (simp add: drained_def)
  from res 1 2 3 show ?thesis by blast
qed

lemma ProcessLastSavedRequest_returns:
  assumes "\<not> lastRequestLock t" "lastRequest t = Some r"
    "err_ok (if Err r = None then lastErr else Err r)"
  shows "\<exists>fin t1. ProcessLastSavedRequest E ctx lastErr t = Inr (Some fin, t1)"
proof -
  from assms(3) have "err_ok (Err (r\<lparr>Err := (if Err r = None then lastErr else Err r)\<rparr>))"
    by simp
  from measureAndEmitMetrics_returns_ok [OF this] obtain fin t1 where
    "measureAndEmitMetrics E ctx (r\<lparr>Err := (if Err r = None then lastErr else Err r)\<rparr>)
       (drained None t) = Inr (fin, t1)" by blast
  with assms(1,2) show ?thesis by (simp add: ProcessLastSavedRequest_eq)
qed

text \<open>
  C2. A call of \<open>ProcessLastSavedRequest\<close> on a dispatcher whose mutex is free: with an
  empty slot it returns \<open>nil\<close> and the slot stays empty; with a staged request that has
  no error and a \<open>lastErr\<close> that is not \<open>nil\<close>, the finished request carries \<open>lastErr\<close>
  and its code and message are the classification of \<open>lastErr\<close>; with a staged request
  that has an error, the finished request carries that error and its classification,
  whatever \<open>lastErr\<close> is. The call returns whenever the classifier does.
\<close>

theorem ProcessLastSavedRequest_keeps_first_error:
  assumes "\<not> lastRequestLock t"
  shows
    "(lastRequest t = None \<longrightarrow>
        (\<exists>t1. ProcessLastSavedRequest E ctx lastErr t = Inr (None, t1) \<and> lastRequest t1 = None))
     \<and> (lastRequest t = Some r \<longrightarrow> Err r = None \<longrightarrow> lastErr = Some e \<longrightarrow>
          (url_errors_wrap e \<longrightarrow>
             (\<exists>fin t1. ProcessLastSavedRequest E ctx lastErr t = Inr (Some fin, t1)))
          \<and> (\<forall>res t1. ProcessLastSavedRequest E ctx lastErr t = Inr (res, t1) \<longrightarrow>
                (\<exists>fin. res = Some fin \<and> Err (UnfinishedRequest fin) = Some e
                   \<and> ErrorCodeForError E (Some e) = Inr (ErrorCode fin, ErrorMsg fin))))
     \<and> (lastRequest t = Some r \<longrightarrow> Err r = Some e0 \<longrightarrow>
          (url_errors_wrap e0 \<longrightarrow>
             (\<exists>fin t1. ProcessLastSavedRequest E ctx lastErr t = Inr (Some fin, t1)))
          \<and> (\<forall>res t1. ProcessLastSavedRequest E ctx lastErr t = Inr (res, t1) \<longrightarrow>
                (\<exists>fin. res = Some fin \<and> Err (UnfinishedRequest fin) = Some e0
                   \<and> ErrorCodeForError E (Some e0) = Inr (ErrorCode fin, ErrorMsg fin))))"
proof (intro conjI impI allI)
  assume "lastRequest t = None"
  with assms show "\<exists>t1. ProcessLastSavedRequest E ctx lastErr t = Inr (None, t1) \<and> lastRequest t1 = None"
    by (simp add: ProcessLastSavedRequest_eq drained_def)
next
  assume "lastRequest t = Some r" "Err r = None" "lastErr = Some e" "url_errors_wrap e"
  with ProcessLastSavedRequest_returns [OF assms, of r lastErr E ctx]
  show "\<exists>fin t1. ProcessLastSavedRequest E ctx lastErr t = Inr (Some fin, t1)"
    by (simp add: err_ok_def)
next
  fix res t1
  assume "lastRequest t = Some r" "Err r = None" "lastErr = Some e"
    "ProcessLastSavedRequest E ctx lastErr t = Inr (res, t1)"
  with ProcessLastSavedRequest_staged [OF assms, of r E ctx lastErr res t1]
  show "\<exists>fin. res = Some fin \<and> Err (UnfinishedRequest fin) = Some e
           \<and> ErrorCodeForError E (Some e) = Inr (ErrorCode fin, ErrorMsg fin)"
    by auto
next
  assume "lastRequest t = Some r" "Err r = Some e0" "url_errors_wrap e0"
  with ProcessLastSavedRequest_returns [OF assms, of r lastErr E ctx]
  show "\<exists>fin t1. ProcessLastSavedRequest E ctx lastErr t = Inr (Some fin, t1)"
    by (simp add: err_ok_def)
next
  fix res t1
  assume "lastRequest t = Some r" "Err r = Some e0"
    "ProcessLastSavedRequest E ctx lastErr t = Inr (res, t1)"
  with ProcessLastSavedRequest_staged [OF assms, of r E ctx lastErr res t1]
  show "\<exists>fin. res = Some fin \<and> Err (UnfinishedRequest fin) = Some e0
           \<and> ErrorCodeForError E (Some e0) = Inr (ErrorCode fin, ErrorMsg fin)"
    by auto
qed

theorem ProcessLastSavedRequest_keeps_first_error_witness:
  "\<not> lastRequestLock
       ((NewMetricDispatcher no_tags (example_state {}))
          \<lparr>lastRequest := Some (example_request ''http://a/'' 200 None)\<rparr>)
   \<and> (\<exists>fin t1.
         ProcessLastSavedRequest example_env (Context False) (Some BlockedHostError)
           ((NewMetricDispatcher no_tags (example_state {}))
              \<lparr>lastRequest := Some (example_request ''http://a/'' 200 None)\<rparr>)
           = Inr (Some fin, t1)
         \<and> Err (UnfinishedRequest fin) = Some BlockedHostError
         \<and> ErrorCode fin = 1111)
   \<and> (\<exists>t1. ProcessLastSavedRequest example_env (Context False) (Some BlockedHostError)
              (NewMetricDispatcher no_tags (example_state {})) = Inr (None, t1)
            \<and> lastRequest t1 = None)"
proof -
  let ?t = "(NewMetricDispatcher no_tags (example_state {}))
              \<lparr>lastRequest := Some (example_request ''http://a/'' 200 None)\<rparr>"
  let ?n = "NewMetricDispatcher no_tags (example_state {})"
  have u: "\<not> lastRequestLock ?t" and un: "\<not> lastRequestLock ?n"
    by (simp_all add: NewMetricDispatcher_def)
  have s: "lastRequest ?t = Some (example_request ''http://a/'' 200 None)"
    and e: "Err (example_request ''http://a/'' 200 None) = None"
    and sn: "lastRequest ?n = None"
    by (simp_all add: example_request_def NewMetricDispatcher_def)
  note th = ProcessLastSavedRequest_keeps_first_error
    [OF u, of example_env "Context False" "Some BlockedHostError"
       "example_request ''http://a/'' 200 None" BlockedHostError]
  note thn = ProcessLastSavedRequest_keeps_first_error
    [OF un, of example_env "Context False" "Some BlockedHostError"]
  from th s e obtain fin t1 where
    p: "ProcessLastSavedRequest example_env (Context False) (Some BlockedHostError) ?t
          = Inr (Some fin, t1)"
    by auto
  with th s e have "Err (UnfinishedRequest fin) = Some BlockedHostError
      \<and> ErrorCodeForError example_env (Some BlockedHostError) = Inr (ErrorCode fin, ErrorMsg fin)"
    by auto
  then have "Err (UnfinishedRequest fin) = Some BlockedHostError \<and> ErrorCode fin = 1111"
    by (simp add: blockedHostnameErrorCode_def)
  with p u thn sn show ?thesis by blast
qed

end
